theory Spec2Isabelle
  imports Complex_Main
begin

section \<open>Volumes, arrays and the library operations the pipeline calls\<close>

text \<open>
  The consensus pipeline of \<^verbatim>\<open>src/core/staple.py\<close> works on SimpleITK images and on
  the numpy arrays obtained from them. An image is modelled by its header (size, spacing,
  origin, direction) and its voxel buffer, flattened; \<^verbatim>\<open>sitk.GetArrayFromImage\<close> returns
  that buffer. An image has a pixel type, integer or floating point; the value of a voxel is
  a real number in both cases. Floating-point values are modelled by real numbers; numpy's
  \<^verbatim>\<open>nan\<close>, which the reductions over an empty array return, is the value \<open>None\<close> of
  \<open>real option\<close>.
\<close>

datatype pixel_type =
    sitkUInt8 | sitkInt8 | sitkUInt16 | sitkInt16 | sitkUInt32 | sitkInt32
  | sitkUInt64 | sitkInt64 | sitkFloat32 | sitkFloat64

definition is_floating :: "pixel_type \<Rightarrow> bool" where
  "is_floating t = (t = sitkFloat32 \<or> t = sitkFloat64)"

record image =
  GetPixelID :: pixel_type
  GetSize :: "nat list"
  GetSpacing :: "real list"
  GetOrigin :: "real list"
  GetDirection :: "real list"
  voxels :: "real list"

definition GetArrayFromImage :: "image \<Rightarrow> real list" where
  "GetArrayFromImage img = voxels img"

text \<open>Python exceptions, one constructor for each place that raises.\<close>

datatype error =
    TooFewSegmentations
  | ErrorReadingOriginal
  | ErrorReading string error
  | FileUnreadable
  | SizeMismatch
  | NoSegmentationsProvided
  | Expected3D nat
  | DifferentDimensions nat
  | DifferentSpacing nat
  | ShapeMismatch
  | NonBinaryValues
  | ZeroSizeReduction
  | EmptySequence
  | ZeroDivision
  | FileUnwritable
  | ErrorSaving
  | ThresholdNotRepresentable
  | KernelRadiusTypeError
  | ObjectSizeOverflowError

subsection \<open>numpy\<close>

text \<open>\<^verbatim>\<open>np.unique\<close>: the distinct values of an array, sorted.\<close>

definition np_unique :: "real list \<Rightarrow> real list" where
  "np_unique arr = sort (remdups arr)"

subsection \<open>numpy reductions and comparisons\<close>

text \<open>
  \<^verbatim>\<open>np.mean\<close> and \<^verbatim>\<open>np.std\<close> (the population standard deviation,
  \<^verbatim>\<open>sqrt(mean(abs(x - x.mean())**2))\<close>). On an empty array both return \<^verbatim>\<open>nan\<close> with a
  runtime warning; no exception is raised.
\<close>

definition np_mean :: "real list \<Rightarrow> real option" where
  "np_mean xs = (if xs = [] then None else Some (sum_list xs / real (length xs)))"

definition np_std :: "real list \<Rightarrow> real option" where
  "np_std xs =
     (case np_mean xs of
        None \<Rightarrow> None
      | Some m \<Rightarrow> Some (sqrt (sum_list (map (\<lambda>x. \<bar>x - m\<bar> ^ 2) xs) / real (length xs))))"

text \<open>Arithmetic and comparison with \<^verbatim>\<open>nan\<close>: a sum or difference with \<^verbatim>\<open>nan\<close> is
  \<^verbatim>\<open>nan\<close>, and every comparison with \<^verbatim>\<open>nan\<close> is false.\<close>

definition nan_minus :: "real option \<Rightarrow> real option \<Rightarrow> real option" where
  "nan_minus a b = (case a of None \<Rightarrow> None | Some x \<Rightarrow> (case b of None \<Rightarrow> None | Some y \<Rightarrow> Some (x - y)))"

definition nan_plus :: "real option \<Rightarrow> real option \<Rightarrow> real option" where
  "nan_plus a b = (case a of None \<Rightarrow> None | Some x \<Rightarrow> (case b of None \<Rightarrow> None | Some y \<Rightarrow> Some (x + y)))"

definition nan_less :: "real option \<Rightarrow> real \<Rightarrow> bool" where
  "nan_less t p = (case t of None \<Rightarrow> False | Some x \<Rightarrow> x < p)"

definition np_zeros_like :: "real list \<Rightarrow> real list" where
  "np_zeros_like a = replicate (length a) 0"

text \<open>
  \<^verbatim>\<open>a += b\<close> on arrays: element-wise, and a \<^verbatim>\<open>ValueError\<close> when the shapes differ.
  The arrays are the flattened volumes of the pipeline, which have the reference's size;
  numpy's broadcasting of an axis of length one does not occur there.
\<close>

definition np_iadd :: "real list \<Rightarrow> real list \<Rightarrow> error + real list" where
  "np_iadd a b = (if length a = length b then Inr (map2 (+) a b) else Inl ShapeMismatch)"

text \<open>\<^verbatim>\<open>arr[mask]\<close>: the elements of \<open>arr\<close> where the boolean mask is true.\<close>

definition np_select :: "real list \<Rightarrow> bool list \<Rightarrow> real list" where
  "np_select arr flags = map fst (filter snd (zip arr flags))"

text \<open>
  \<^verbatim>\<open>np.allclose(a, b, rtol)\<close> on two sequences, with the default \<^verbatim>\<open>atol = 1e-8\<close>:
  every pair satisfies \<open>\<bar>x - y\<bar> \<le> atol + rtol * \<bar>y\<bar>\<close>. A sequence of length one is
  broadcast; other sequences of different lengths raise a \<^verbatim>\<open>ValueError\<close>.
\<close>

definition atol :: real where
  "atol = 1 / 100000000"

definition isclose :: "real \<Rightarrow> real \<Rightarrow> real \<Rightarrow> bool" where
  "isclose rtol x y = (\<bar>x - y\<bar> \<le> atol + rtol * \<bar>y\<bar>)"

definition np_allclose :: "real list \<Rightarrow> real list \<Rightarrow> real \<Rightarrow> error + bool" where
  "np_allclose a b rtol =
     (if length a = length b then Inr (list_all2 (isclose rtol) a b)
      else if length a = 1 then Inr (list_all (\<lambda>y. isclose rtol (hd a) y) b)
      else if length b = 1 then Inr (list_all (\<lambda>x. isclose rtol x (hd b)) a)
      else Inl ShapeMismatch)"

text \<open>
  \<^verbatim>\<open>sitk.GetImageFromArray\<close> of an array of type \<^verbatim>\<open>uint8\<close>: an image of that pixel
  type with the array's shape and the default header (unit spacing, zero origin, identity
  direction). The array is kept flattened, so its shape is passed along.
\<close>

definition identity_direction :: "nat \<Rightarrow> real list" where
  "identity_direction d = concat (map (\<lambda>i. map (\<lambda>j. if i = j then 1 else 0) [0..<d]) [0..<d])"

definition GetImageFromArray :: "nat list \<Rightarrow> real list \<Rightarrow> image" where
  "GetImageFromArray shape arr =
     \<lparr>GetPixelID = sitkUInt8, GetSize = shape, GetSpacing = replicate (length shape) 1,
      GetOrigin = replicate (length shape) 0,
      GetDirection = identity_direction (length shape), voxels = arr\<rparr>"

subsection \<open>SimpleITK pixel-wise filters\<close>

text \<open>
  \<^verbatim>\<open>sitk.BinaryThreshold(img, lowerThreshold, upperThreshold=float('inf'), insideValue,
  outsideValue)\<close>, the one way the pipeline calls the filter. The thresholds are converted to
  the pixel type of the image. An integer pixel type has no value for the infinite upper
  threshold, and the filter raises. On a floating-point image a voxel is inside when its value
  is at least the lower threshold (the threshold itself included). The result has the pixel
  type \<^verbatim>\<open>uint8\<close>.
\<close>

definition BinaryThreshold :: "image \<Rightarrow> real \<Rightarrow> real \<Rightarrow> real \<Rightarrow> error + image" where
  "BinaryThreshold img lowerThreshold insideValue outsideValue =
     (if \<not> is_floating (GetPixelID img) then Inl ThresholdNotRepresentable
      else Inr (img\<lparr>GetPixelID := sitkUInt8,
                     voxels := map (\<lambda>v. if lowerThreshold \<le> v then insideValue else outsideValue)
                                 (voxels img)\<rparr>))"

text \<open>
  \<^verbatim>\<open>img > c\<close> on an image: an image of type \<^verbatim>\<open>uint8\<close>, 1 where the voxel exceeds the
  constant, 0 elsewhere.
\<close>

definition Greater :: "image \<Rightarrow> real \<Rightarrow> image" where
  "Greater img c =
     img\<lparr>GetPixelID := sitkUInt8, voxels := map (\<lambda>v. if v > c then 1 else 0) (voxels img)\<rparr>"

text \<open>
  \<^verbatim>\<open>sitk.Cast(img, sitk.sitkUInt8)\<close>: each value is truncated towards zero and reduced
  modulo 256.
\<close>

definition trunc :: "real \<Rightarrow> int" where
  "trunc x = (if 0 \<le> x then \<lfloor>x\<rfloor> else \<lceil>x\<rceil>)"

definition Cast_UInt8 :: "image \<Rightarrow> image" where
  "Cast_UInt8 img =
     img\<lparr>GetPixelID := sitkUInt8,
         voxels := map (\<lambda>v. real_of_int (trunc v mod 256)) (voxels img)\<rparr>"

subsection \<open>Python built-ins and further numpy functions\<close>

text \<open>
  \<^verbatim>\<open>round(x)\<close> rounds to the nearest integer, a tie to the even one; \<^verbatim>\<open>int(x)\<close> is
  \<open>trunc\<close>. \<^verbatim>\<open>min\<close> and \<^verbatim>\<open>max\<close> raise a \<^verbatim>\<open>ValueError\<close> on an empty sequence.
\<close>

definition py_round :: "real \<Rightarrow> int" where
  "py_round x =
     (let f = \<lfloor>x\<rfloor>; d = x - real_of_int f
      in if d < 1/2 then f else if d > 1/2 then f + 1 else if even f then f else f + 1)"

definition py_min :: "real list \<Rightarrow> error + real" where
  "py_min xs = (case xs of [] \<Rightarrow> Inl EmptySequence | y # ys \<Rightarrow> Inr (fold min ys y))"

definition py_max :: "real list \<Rightarrow> error + real" where
  "py_max xs = (case xs of [] \<Rightarrow> Inl EmptySequence | y # ys \<Rightarrow> Inr (fold max ys y))"

text \<open>\<^verbatim>\<open>np.pi\<close> is the double nearest to \<open>\<pi>\<close>; this is its exact value.\<close>

definition np_pi :: real where
  "np_pi = 884279719003555 / 281474976710656"

definition np_prod :: "real list \<Rightarrow> real" where
  "np_prod xs = prod_list xs"

text \<open>
  \<^verbatim>\<open>np.min\<close> raises a \<^verbatim>\<open>ValueError\<close> on an empty array (a reduction without identity),
  whereas \<^verbatim>\<open>np.median\<close> returns \<^verbatim>\<open>nan\<close> there, as it does when an element is \<^verbatim>\<open>nan\<close>.
\<close>

definition np_min :: "real list \<Rightarrow> error + real" where
  "np_min xs = (case xs of [] \<Rightarrow> Inl ZeroSizeReduction | y # ys \<Rightarrow> Inr (fold min ys y))"

definition np_median :: "real list \<Rightarrow> real option" where
  "np_median xs =
     (let s = sort xs; n = length xs
      in if n = 0 then None
         else if odd n then Some (s ! (n div 2))
         else Some ((s ! (n div 2 - 1) + s ! (n div 2)) / 2))"

definition np_median_nan :: "real option list \<Rightarrow> real option" where
  "np_median_nan xs =
     (if None \<in> set xs then None
      else np_median (concat (map (\<lambda>x. case x of None \<Rightarrow> [] | Some v \<Rightarrow> [v]) xs)))"

subsection \<open>SimpleITK filters\<close>

text \<open>
  The morphological filters, the connected-component filter, the principal axes of a label
  and the STAPLE filter belong to the library; they are parameters of the model, functions of
  the arguments the code passes them. The kernel radius of a morphological filter is an
  unsigned integer of 32 bits and the minimum object size of the relabelling filter one of
  64 bits: \<^verbatim>\<open>SetKernelRadius\<close> raises a \<^verbatim>\<open>TypeError\<close> and
  \<^verbatim>\<open>SetMinimumObjectSize\<close> an \<^verbatim>\<open>OverflowError\<close> for a Python integer outside the range.
\<close>

definition uint32_max :: int where
  "uint32_max = 4294967295"

definition uint64_max :: int where
  "uint64_max = 18446744073709551615"

record sitk =
  BinaryDilate :: "nat \<Rightarrow> image \<Rightarrow> image"
  BinaryErode :: "nat \<Rightarrow> image \<Rightarrow> image"
  BinaryMorphologicalClosing :: "nat \<Rightarrow> image \<Rightarrow> image"
  ConnectedComponent :: "image \<Rightarrow> image"
  GetPrincipalAxes :: "image \<Rightarrow> real \<Rightarrow> real list"
  STAPLE :: "real \<Rightarrow> image list \<Rightarrow> image"

text \<open>
  \<^verbatim>\<open>img.CopyInformation(src)\<close> copies origin, spacing and direction from \<open>src\<close>; it raises
  when the two sizes differ.
\<close>

definition CopyInformation :: "image \<Rightarrow> image \<Rightarrow> error + image" where
  "CopyInformation img src =
     (if GetSize img = GetSize src
      then Inr (img\<lparr>GetSpacing := GetSpacing src, GetOrigin := GetOrigin src,
                     GetDirection := GetDirection src\<rparr>)
      else Inl SizeMismatch)"

text \<open>
  A label image holds the label of its component in each voxel and 0 in the background.
  \<^verbatim>\<open>LabelShapeStatisticsImageFilter\<close> reports the labels that occur
  (\<^verbatim>\<open>GetLabels\<close>), and for a label its number of voxels and its physical size, the number
  of voxels multiplied by the volume of a voxel of the label image.
\<close>

definition GetLabels :: "image \<Rightarrow> real list" where
  "GetLabels components = sort (remdups (filter (\<lambda>v. v \<noteq> 0) (voxels components)))"

definition GetNumberOfPixels :: "image \<Rightarrow> real \<Rightarrow> nat" where
  "GetNumberOfPixels components l = count_list (voxels components) l"

definition GetPhysicalSize :: "image \<Rightarrow> real \<Rightarrow> real" where
  "GetPhysicalSize components l =
     real (GetNumberOfPixels components l) * prod_list (GetSpacing components)"

text \<open>
  \<^verbatim>\<open>RelabelComponentImageFilter\<close> with a minimum object size: the labels with fewer voxels
  are removed, and the remaining ones are numbered from 1 by decreasing size.
\<close>

fun rank :: "real \<Rightarrow> real list \<Rightarrow> nat" where
  "rank l [] = 0"
| "rank l (k # ks) = (if l = k then 1 else (let r = rank l ks in if r = 0 then 0 else Suc r))"

definition RelabelComponent :: "nat \<Rightarrow> image \<Rightarrow> image" where
  "RelabelComponent minimum_object_size components =
     (let kept = filter (\<lambda>l. minimum_object_size \<le> GetNumberOfPixels components l)
                   (GetLabels components);
          ordered = sort_key (\<lambda>l. - int (GetNumberOfPixels components l)) kept
      in components\<lparr>voxels := map (\<lambda>v. real (rank v ordered)) (voxels components)\<rparr>)"

section \<open>BinaryMaskNormalizer\<close>

text \<open>\<^verbatim>\<open>convert_to_binary_mask\<close>, staple.py lines 534-554.\<close>

definition convert_to_binary_mask :: "image \<Rightarrow> error + image" where
  "convert_to_binary_mask seg =
     (case (if length (np_unique (GetArrayFromImage seg)) > 2
            then BinaryThreshold seg (11/10) 1 0
            else Inr seg) of
        Inl e \<Rightarrow> Inl e
      | Inr seg \<Rightarrow> Inr (Cast_UInt8 (Greater seg 0)))"

text \<open>\<^verbatim>\<open>verify_segmentation_values\<close>, staple.py lines 349-360.\<close>

definition verify_segmentation_values :: "image \<Rightarrow> error + unit" where
  "verify_segmentation_values seg =
     (let arr = GetArrayFromImage seg;
          unique_values = np_unique arr
      in if unique_values \<noteq> [0, 1] \<and> unique_values \<noteq> [0] \<and> unique_values \<noteq> [1]
         then Inl NonBinaryValues
         else Inr ())"

section \<open>AdaptiveThresholder\<close>

text \<open>
  The loop \<^verbatim>\<open>for seg in segmentations: vessel_mask += sitk.GetArrayFromImage(seg)\<close> and the
  comparison \<^verbatim>\<open>vessel_mask = vessel_mask > 0\<close> that follows it, written out in both
  \<^verbatim>\<open>compute_optimal_thresholds\<close> (lines 204-207) and \<^verbatim>\<open>adaptive_staple_threshold\<close>
  (lines 243-246).
\<close>

fun add_segmentations :: "real list \<Rightarrow> image list \<Rightarrow> error + real list" where
  "add_segmentations vessel_mask [] = Inr vessel_mask"
| "add_segmentations vessel_mask (seg # segmentations) =
     (case np_iadd vessel_mask (GetArrayFromImage seg) of
        Inl e \<Rightarrow> Inl e
      | Inr vessel_mask' \<Rightarrow> add_segmentations vessel_mask' segmentations)"

definition vessel_mask_of :: "real list \<Rightarrow> image list \<Rightarrow> error + bool list" where
  "vessel_mask_of prob_array segmentations =
     (case add_segmentations (np_zeros_like prob_array) segmentations of
        Inl e \<Rightarrow> Inl e
      | Inr vessel_mask \<Rightarrow> Inr (map (\<lambda>x. x > 0) vessel_mask))"

text \<open>\<^verbatim>\<open>compute_optimal_thresholds\<close>, staple.py lines 190-234.\<close>

definition compute_optimal_thresholds :: "image \<Rightarrow> image list \<Rightarrow> error + (real option \<times> real option)" where
  "compute_optimal_thresholds consensus_prob segmentations =
     (let prob_array = GetArrayFromImage consensus_prob in
      case vessel_mask_of prob_array segmentations of
        Inl e \<Rightarrow> Inl e
      | Inr vessel_mask \<Rightarrow>
          (let vessel_probs = np_select prob_array vessel_mask;
               non_vessel_probs = np_select prob_array (map Not vessel_mask);
               vessel_mean = np_mean vessel_probs;
               vessel_std = np_std vessel_probs;
               non_vessel_mean = np_mean non_vessel_probs;
               non_vessel_std = np_std non_vessel_probs;
               lower_threshold = nan_minus vessel_mean vessel_std;
               higher_threshold = nan_plus non_vessel_mean non_vessel_std
           in Inr (lower_threshold, higher_threshold)))"

text \<open>\<^verbatim>\<open>adaptive_staple_threshold\<close>, staple.py lines 236-257.\<close>

definition adaptive_staple_threshold :: "image \<Rightarrow> image list \<Rightarrow> error + image" where
  "adaptive_staple_threshold consensus_prob segmentations =
     (let prob_array = GetArrayFromImage consensus_prob in
      case vessel_mask_of prob_array segmentations of
        Inl e \<Rightarrow> Inl e
      | Inr vessel_mask \<Rightarrow>
          (case compute_optimal_thresholds consensus_prob segmentations of
             Inl e \<Rightarrow> Inl e
           | Inr (lower_thresh, higher_thresh) \<Rightarrow>
               (let threshold = map (\<lambda>m. if m then lower_thresh else higher_thresh) vessel_mask;
                    binary = map2 (\<lambda>p t. if nan_less t p then 1 else 0) prob_array threshold
                in Inr (GetImageFromArray (GetSize consensus_prob) binary))))"

section \<open>SpatialConsistencyValidator\<close>

text \<open>
  \<^verbatim>\<open>verify_spatial_consistency\<close>, staple.py lines 293-347, with
  \<^verbatim>\<open>plot_verification = False\<close> (the other value only prints). The loop over
  \<^verbatim>\<open>enumerate(segmentations)\<close> stops at the first segmentation that raises.
\<close>

definition tolerance :: real where
  "tolerance = 1 / 1000"

fun check_segmentations :: "nat list \<Rightarrow> real list \<Rightarrow> nat \<Rightarrow> image list \<Rightarrow> error + unit" where
  "check_segmentations ref_size ref_spacing i [] = Inr ()"
| "check_segmentations ref_size ref_spacing i (seg # segmentations) =
     (if GetSize seg \<noteq> ref_size then Inl (DifferentDimensions i)
      else case np_allclose (GetSpacing seg) ref_spacing tolerance of
             Inl e \<Rightarrow> Inl e
           | Inr close \<Rightarrow>
               if \<not> close then Inl (DifferentSpacing i)
               else check_segmentations ref_size ref_spacing (Suc i) segmentations)"

definition verify_spatial_consistency :: "image \<Rightarrow> image list \<Rightarrow> error + unit" where
  "verify_spatial_consistency reference_image segmentations =
     (if segmentations = [] then Inl NoSegmentationsProvided
      else let ref_size = GetSize reference_image;
               ref_spacing = GetSpacing reference_image
           in if length ref_size \<noteq> 3 then Inl (Expected3D (length ref_size))
              else check_segmentations ref_size ref_spacing 0 segmentations)"

section \<open>MorphologicalPreprocessor\<close>

text \<open>\<^verbatim>\<open>preprocess_segmentation\<close>, staple.py lines 153-169.\<close>

definition preprocess_segmentation :: "sitk \<Rightarrow> image \<Rightarrow> image" where
  "preprocess_segmentation lib seg =
     (let processed = BinaryDilate lib 1 seg;
          processed = BinaryMorphologicalClosing lib 1 processed
      in Cast_UInt8 processed)"

section \<open>VesselConnectivityEnhancer\<close>

text \<open>
  \<^verbatim>\<open>analyze_vessel_characteristics\<close>, staple.py lines 10-66. The body of the loop over the
  labels of one segmentation comes first; a raise inside a loop ends the function.
\<close>

fun map_raising :: "('a \<Rightarrow> error + 'b) \<Rightarrow> 'a list \<Rightarrow> error + 'b list" where
  "map_raising f [] = Inr []"
| "map_raising f (x # xs) =
     (case f x of
        Inl e \<Rightarrow> Inl e
      | Inr y \<Rightarrow> (case map_raising f xs of Inl e \<Rightarrow> Inl e | Inr ys \<Rightarrow> Inr (y # ys)))"

record component_measures =
  volume_mm3 :: real
  minor_length :: real
  major_length :: real

definition measure_component :: "sitk \<Rightarrow> real list \<Rightarrow> image \<Rightarrow> real \<Rightarrow> error + component_measures" where
  "measure_component lib spacing components l =
     (let volume_voxels = GetPhysicalSize components l;
          volume = volume_voxels * np_prod spacing;
          axis_lengths = GetPrincipalAxes lib components l
      in case py_max axis_lengths of
           Inl e \<Rightarrow> Inl e
         | Inr longest \<Rightarrow>
             (case py_min spacing of
                Inl e \<Rightarrow> Inl e
              | Inr min_spacing \<Rightarrow>
                  (case py_min axis_lengths of
                     Inl e \<Rightarrow> Inl e
                   | Inr shortest \<Rightarrow>
                       Inr \<lparr>volume_mm3 = volume,
                            minor_length = shortest * min_spacing,
                            major_length = longest * min_spacing\<rparr>)))"

record segmentation_stats =
  median_volume_mm3 :: "real option"
  median_diameter_mm :: "real option"
  median_length_mm :: "real option"
  min_volume_mm3 :: real
  min_diameter_mm :: real
  min_length_mm :: real

definition analyze_segmentation :: "sitk \<Rightarrow> real list \<Rightarrow> image \<Rightarrow> error + segmentation_stats" where
  "analyze_segmentation lib spacing seg =
     (let components = ConnectedComponent lib seg in
      case map_raising (measure_component lib spacing components) (GetLabels components) of
        Inl e \<Rightarrow> Inl e
      | Inr measured \<Rightarrow>
          (let volumes_mm3 = map volume_mm3 measured;
               diameters_mm = map minor_length measured;
               lengths_mm = map major_length measured
           in case np_min volumes_mm3 of
                Inl e \<Rightarrow> Inl e
              | Inr min_volume \<Rightarrow>
                  (case np_min diameters_mm of
                     Inl e \<Rightarrow> Inl e
                   | Inr min_diameter \<Rightarrow>
                       (case np_min lengths_mm of
                          Inl e \<Rightarrow> Inl e
                        | Inr min_length \<Rightarrow>
                            Inr \<lparr>median_volume_mm3 = np_median volumes_mm3,
                                 median_diameter_mm = np_median diameters_mm,
                                 median_length_mm = np_median lengths_mm,
                                 min_volume_mm3 = min_volume,
                                 min_diameter_mm = min_diameter,
                                 min_length_mm = min_length\<rparr>))))"

record vessel_statistics =
  recommended_radius_mm :: "real option"
  recommended_min_length_mm :: "real option"
  recommended_min_volume_mm3 :: "real option"
  detailed_stats :: "segmentation_stats list"

definition analyze_vessel_characteristics :: "sitk \<Rightarrow> image list \<Rightarrow> image \<Rightarrow> error + vessel_statistics" where
  "analyze_vessel_characteristics lib segmentations original_image =
     (let spacing = GetSpacing original_image in
      case map_raising (analyze_segmentation lib spacing) segmentations of
        Inl e \<Rightarrow> Inl e
      | Inr vessel_stats \<Rightarrow>
          Inr \<lparr>recommended_radius_mm =
                 np_median_nan (map (\<lambda>stats. map_option (\<lambda>d. d / 2) (median_diameter_mm stats))
                                  vessel_stats),
               recommended_min_length_mm = np_median (map min_length_mm vessel_stats),
               recommended_min_volume_mm3 = np_median (map min_volume_mm3 vessel_stats),
               detailed_stats = vessel_stats\<rparr>)"

text \<open>
  \<^verbatim>\<open>enhance_vessel_connectivity\<close>, staple.py lines 109-151. A division by a zero spacing
  raises (or yields an infinity that \<^verbatim>\<open>round\<close> and \<^verbatim>\<open>int\<close> reject). The kernel radius
  is set on the two morphological filters (lines 134 and 137) before they run, the minimum
  object size on the relabelling filter (line 145) after the components are labelled.
\<close>

definition enhance_vessel_connectivity :: "sitk \<Rightarrow> image \<Rightarrow> image \<Rightarrow> real \<Rightarrow> real \<Rightarrow> error + image" where
  "enhance_vessel_connectivity lib binary_mask original_image vessel_radius_mm min_vessel_length_mm =
     (let spacing = GetSpacing original_image in
      case py_min spacing of
        Inl e \<Rightarrow> Inl e
      | Inr min_spacing \<Rightarrow>
          if min_spacing = 0 then Inl ZeroDivision
          else
            (let kernel_radius = py_round (vessel_radius_mm / min_spacing);
                 min_vessel_volume_mm3 = np_pi * vessel_radius_mm ^ 2 * min_vessel_length_mm;
                 voxel_volume = np_prod spacing
             in if voxel_volume = 0 then Inl ZeroDivision
                else
                  (let min_object_size = trunc (min_vessel_volume_mm3 / voxel_volume)
                   in if kernel_radius < 0 \<or> uint32_max < kernel_radius
                      then Inl KernelRadiusTypeError
                      else
                        (let connected = BinaryDilate lib (nat kernel_radius) binary_mask;
                             connected = BinaryErode lib (nat kernel_radius) connected;
                             components = ConnectedComponent lib connected
                         in if min_object_size < 0 \<or> uint64_max < min_object_size
                            then Inl ObjectSizeOverflowError
                            else
                              (let final = RelabelComponent (nat min_object_size) components;
                                   binary_final = Cast_UInt8 (Greater final 0)
                               in CopyInformation binary_final original_image)))))"

section \<open>ConsensusPipelineOrchestrator\<close>

text \<open>
  The file system: a path holds an image file, a file that \<^verbatim>\<open>sitk.ReadImage\<close> cannot
  read, or nothing; \<^verbatim>\<open>sitk.WriteImage\<close> succeeds on the writable paths.
\<close>

datatype entry = ImageFile image | OtherFile

record filesystem =
  files :: "string \<Rightarrow> entry option"
  writable :: "string \<Rightarrow> bool"

definition os_path_exists :: "filesystem \<Rightarrow> string \<Rightarrow> bool" where
  "os_path_exists fs path = (files fs path \<noteq> None)"

definition ReadImage :: "filesystem \<Rightarrow> string \<Rightarrow> error + image" where
  "ReadImage fs path =
     (case files fs path of Some (ImageFile img) \<Rightarrow> Inr img | _ \<Rightarrow> Inl FileUnreadable)"

definition WriteImage :: "filesystem \<Rightarrow> image \<Rightarrow> string \<Rightarrow> error + filesystem" where
  "WriteImage fs img path =
     (if writable fs path then Inr (fs\<lparr>files := (files fs)(path \<mapsto> ImageFile img)\<rparr>)
      else Inl FileUnwritable)"

text \<open>
  \<^verbatim>\<open>create_staple_consensus\<close>, staple.py lines 556-664, with \<^verbatim>\<open>visualize\<close> and
  \<^verbatim>\<open>plot_verification\<close> at their default \<^verbatim>\<open>False\<close> (they open plots and print).
  First the body of the \<^verbatim>\<open>try\<close> of lines 587-592 and the loop of lines 581-594 around
  it: a path that does not exist is skipped, any exception for a path that exists is raised
  again as \<^verbatim>\<open>ValueError("Error reading ...")\<close>.
\<close>

definition read_segmentation :: "filesystem \<Rightarrow> image \<Rightarrow> string \<Rightarrow> error + image" where
  "read_segmentation fs original_image seg_path =
     (case ReadImage fs seg_path of
        Inl e \<Rightarrow> Inl e
      | Inr seg \<Rightarrow>
          (case convert_to_binary_mask seg of
             Inl e \<Rightarrow> Inl e
           | Inr seg \<Rightarrow>
               (case verify_segmentation_values seg of
                  Inl e \<Rightarrow> Inl e
                | Inr _ \<Rightarrow> CopyInformation seg original_image)))"

fun read_segmentations :: "filesystem \<Rightarrow> image \<Rightarrow> string list \<Rightarrow> error + image list" where
  "read_segmentations fs original_image [] = Inr []"
| "read_segmentations fs original_image (seg_path # segmentation_paths) =
     (if \<not> os_path_exists fs seg_path
      then read_segmentations fs original_image segmentation_paths
      else case read_segmentation fs original_image seg_path of
             Inl e \<Rightarrow> Inl (ErrorReading seg_path e)
           | Inr seg \<Rightarrow>
               (case read_segmentations fs original_image segmentation_paths of
                  Inl e \<Rightarrow> Inl e
                | Inr segmentations \<Rightarrow> Inr (seg # segmentations)))"

text \<open>
  The \<^verbatim>\<open>try\<close> of lines 625-637: when the analysis or the enhancement raises, the
  exception is printed and \<^verbatim>\<open>binary_consensus\<close> keeps its value. A \<^verbatim>\<open>nan\<close> radius or
  length makes \<^verbatim>\<open>round\<close> or \<^verbatim>\<open>int\<close> raise inside the enhancement.
\<close>

definition enhancement_step :: "sitk \<Rightarrow> image list \<Rightarrow> image \<Rightarrow> image \<Rightarrow> image" where
  "enhancement_step lib preprocessed_segs original_image binary_consensus =
     (case analyze_vessel_characteristics lib preprocessed_segs original_image of
        Inl e \<Rightarrow> binary_consensus
      | Inr vessel_stats \<Rightarrow>
          (case recommended_radius_mm vessel_stats of
             None \<Rightarrow> binary_consensus
           | Some vessel_radius_mm \<Rightarrow>
               (case recommended_min_length_mm vessel_stats of
                  None \<Rightarrow> binary_consensus
                | Some min_vessel_length_mm \<Rightarrow>
                    (case enhance_vessel_connectivity lib binary_consensus original_image
                            vessel_radius_mm min_vessel_length_mm of
                       Inl e \<Rightarrow> binary_consensus
                     | Inr enhanced \<Rightarrow> enhanced))))"

definition create_staple_consensus ::
  "sitk \<Rightarrow> filesystem \<Rightarrow> string \<Rightarrow> string list \<Rightarrow> string \<Rightarrow> real \<Rightarrow> bool \<Rightarrow> bool \<Rightarrow> bool
     \<Rightarrow> error + (image option \<times> filesystem)" where
  "create_staple_consensus lib fs original_image_path segmentation_paths output_path
       confidence_threshold do_preprocessing do_adaptive_thresholding do_vessel_enhancement =
     (if length segmentation_paths < 2 then Inl TooFewSegmentations
      else case ReadImage fs original_image_path of
        Inl e \<Rightarrow> Inl ErrorReadingOriginal
      | Inr original_image \<Rightarrow>
      (case read_segmentations fs original_image segmentation_paths of
        Inl e \<Rightarrow> Inl e
      | Inr segmentations \<Rightarrow>
      if segmentations = [] then Inr (None, fs)
      else case verify_spatial_consistency original_image segmentations of
        Inl e \<Rightarrow> Inl e
      | Inr _ \<Rightarrow>
      (let preprocessed_segs =
             (if do_preprocessing then map (preprocess_segmentation lib) segmentations
              else segmentations);
           consensus_prob = STAPLE lib 1 preprocessed_segs
       in case (if do_adaptive_thresholding
                then adaptive_staple_threshold consensus_prob preprocessed_segs
                else Inr (Cast_UInt8 (Greater consensus_prob confidence_threshold))) of
        Inl e \<Rightarrow> Inl e
      | Inr binary_consensus \<Rightarrow>
      (let binary_consensus =
             (if do_vessel_enhancement
              then enhancement_step lib preprocessed_segs original_image binary_consensus
              else binary_consensus)
       in case CopyInformation binary_consensus original_image of
        Inl e \<Rightarrow> Inl e
      | Inr binary_consensus \<Rightarrow>
      (case WriteImage fs binary_consensus output_path of
        Inl e \<Rightarrow> Inl ErrorSaving
      | Inr fs' \<Rightarrow> Inr (Some binary_consensus, fs'))))))"

text \<open>
  The callers. \<^verbatim>\<open>main\<close> of \<^verbatim>\<open>scripts_py/compute_staple.py\<close> (line 104) passes
  \<^verbatim>\<open>confidence_threshold=staple_params.get('confidence_threshold', 0.8)\<close> to
  \<^verbatim>\<open>compute_staple\<close> of \<^verbatim>\<open>src/core/dataset.py\<close>, which hands its keyword arguments to
  the first run (lines 217-222) and, with the three switches set to \<^verbatim>\<open>False\<close>, to the
  second (lines 225-238). A keyword argument that is absent takes the default of the
  signature of \<^verbatim>\<open>create_staple_consensus\<close>. The parameter file
  \<^verbatim>\<open>staple_params.yaml\<close> is a parameter of the model.
\<close>

record kwargs =
  kw_confidence_threshold :: "real option"
  kw_do_preprocessing :: "bool option"
  kw_do_adaptive_thresholding :: "bool option"
  kw_do_vessel_enhancement :: "bool option"

definition main_kwargs :: "(string \<Rightarrow> real option) \<Rightarrow> kwargs" where
  "main_kwargs staple_params =
     \<lparr>kw_confidence_threshold =
        Some (case staple_params ''confidence_threshold'' of None \<Rightarrow> 8/10 | Some t \<Rightarrow> t),
      kw_do_preprocessing = None, kw_do_adaptive_thresholding = None,
      kw_do_vessel_enhancement = None\<rparr>"

definition base_kwargs :: "kwargs \<Rightarrow> kwargs" where
  "base_kwargs kw =
     kw\<lparr>kw_do_preprocessing := Some False, kw_do_adaptive_thresholding := Some False,
        kw_do_vessel_enhancement := Some False\<rparr>"

definition call_create_staple_consensus ::
  "sitk \<Rightarrow> filesystem \<Rightarrow> string \<Rightarrow> string list \<Rightarrow> string \<Rightarrow> kwargs
     \<Rightarrow> error + (image option \<times> filesystem)" where
  "call_create_staple_consensus lib fs original_image_path segmentation_paths output_path kw =
     create_staple_consensus lib fs original_image_path segmentation_paths output_path
       (case kw_confidence_threshold kw of None \<Rightarrow> 1/2 | Some t \<Rightarrow> t)
       (case kw_do_preprocessing kw of None \<Rightarrow> True | Some b \<Rightarrow> b)
       (case kw_do_adaptive_thresholding kw of None \<Rightarrow> True | Some b \<Rightarrow> b)
       (case kw_do_vessel_enhancement kw of None \<Rightarrow> True | Some b \<Rightarrow> b)"

text \<open>
  One case of \<^verbatim>\<open>compute_staple\<close>, dataset.py lines 206-238, once the paths of the case
  are resolved: the case is skipped when fewer than two paths were found, and an exception of
  the first run ends the function.
\<close>

definition compute_staple_case ::
  "sitk \<Rightarrow> filesystem \<Rightarrow> string \<Rightarrow> string list \<Rightarrow> string \<Rightarrow> string \<Rightarrow> kwargs
     \<Rightarrow> error + filesystem" where
  "compute_staple_case lib fs source_path segmentation_paths output_path base_output_path kw =
     (if length segmentation_paths < 2 then Inr fs
      else case call_create_staple_consensus lib fs source_path segmentation_paths output_path kw of
        Inl e \<Rightarrow> Inl e
      | Inr (consensus, fs1) \<Rightarrow>
          (case call_create_staple_consensus lib fs1 source_path segmentation_paths
                  base_output_path (base_kwargs kw) of
             Inl e \<Rightarrow> Inl e
           | Inr (consensus, fs2) \<Rightarrow> Inr fs2))"

section \<open>The specification's vocabulary\<close>

text \<open>
  The specification speaks of the candidate region (the voxels that some rater mask marks as
  foreground), of its complement the background, and of the mean and standard deviation of the
  probabilities over a region. A region is given by a predicate on voxel indices.
\<close>

definition candidate :: "image list \<Rightarrow> nat \<Rightarrow> bool" where
  "candidate segmentations i = (\<exists>seg \<in> set segmentations. voxels seg ! i \<noteq> 0)"

definition region :: "real list \<Rightarrow> (nat \<Rightarrow> bool) \<Rightarrow> real list" where
  "region P R = map (\<lambda>i. P ! i) (filter R [0..<length P])"

definition mean :: "real list \<Rightarrow> real" where
  "mean xs = sum_list xs / real (length xs)"

definition stddev :: "real list \<Rightarrow> real" where
  "stddev xs = sqrt (sum_list (map (\<lambda>x. (x - mean xs) ^ 2) xs) / real (length xs))"

text \<open>The two thresholds of the adaptive mode, in the specification's terms; \<open>None\<close> is
  \<^verbatim>\<open>nan\<close>, the value over an empty region.\<close>

definition thresholds_of :: "real list \<Rightarrow> image list \<Rightarrow> real option \<times> real option" where
  "thresholds_of P segmentations =
     (let C = region P (candidate segmentations);
          B = region P (\<lambda>i. \<not> candidate segmentations i)
      in (nan_minus (np_mean C) (np_std C), nan_plus (np_mean B) (np_std B)))"

text \<open>
  A rater mask is congruent with the reference when it has the reference's size and each of its
  spacing entries is within \<open>10\<^sup>-\<^sup>8\<close> plus 0.1 percent of the reference's entry. The
  spatial-mismatch errors are the two that the validator raises for a mask. An image is
  well formed when it has one spacing entry for each dimension.
\<close>

definition spatially_congruent :: "image \<Rightarrow> image \<Rightarrow> bool" where
  "spatially_congruent reference_image seg =
     (GetSize seg = GetSize reference_image
      \<and> list_all2 (\<lambda>s r. \<bar>s - r\<bar> \<le> 1 / 100000000 + (1 / 1000) * \<bar>r\<bar>)
            (GetSpacing seg) (GetSpacing reference_image))"

definition spatial_mismatch :: "error \<Rightarrow> bool" where
  "spatial_mismatch e =
     (case e of DifferentDimensions i \<Rightarrow> True | DifferentSpacing i \<Rightarrow> True | _ \<Rightarrow> False)"

definition well_formed :: "image \<Rightarrow> bool" where
  "well_formed img = (length (GetSpacing img) = length (GetSize img))"

text \<open>
  Images read from a file hold at least one voxel; a file system has non-empty volumes when
  each of its image files does.
\<close>

definition nonempty_volumes :: "filesystem \<Rightarrow> bool" where
  "nonempty_volumes fs =
     (\<forall>path img. files fs path = Some (ImageFile img) \<longrightarrow> voxels img \<noteq> [])"

section \<open>Concrete volumes\<close>

text \<open>
  A volume of \<open>n \<times> 1 \<times> 1\<close> voxels with unit spacing, in double precision, and a mask
  (pixel type \<^verbatim>\<open>uint8\<close>) of the same geometry, for the concrete instances below.
\<close>

definition unit_volume :: "real list \<Rightarrow> image" where
  "unit_volume vs =
     \<lparr>GetPixelID = sitkFloat64, GetSize = [length vs, 1, 1], GetSpacing = [1, 1, 1],
      GetOrigin = [0, 0, 0], GetDirection = identity_direction 3, voxels = vs\<rparr>"

definition unit_mask :: "real list \<Rightarrow> image" where
  "unit_mask vs = (unit_volume vs)\<lparr>GetPixelID := sitkUInt8\<rparr>"

text \<open>
  A library instance for volumes of a single voxel. There dilation, erosion and closing
  return their argument, and the foreground voxel, if any, is the only component, with
  label 1; the principal axes are the coordinate axes. As probability map the instance
  returns, in double precision and in each voxel, the fraction of the raters that mark it.
\<close>

definition fraction_of_raters :: "image list \<Rightarrow> image" where
  "fraction_of_raters segs =
     (case segs of
        [] \<Rightarrow> unit_volume []
      | seg # rest \<Rightarrow>
          seg\<lparr>GetPixelID := sitkFloat64,
              voxels := map (\<lambda>i. sum_list (map (\<lambda>s. voxels s ! i) segs) / real (length segs))
                             [0..<length (voxels seg)]\<rparr>)"

definition single_voxel_sitk :: sitk where
  "single_voxel_sitk =
     \<lparr>BinaryDilate = (\<lambda>radius img. img),
      BinaryErode = (\<lambda>radius img. img),
      BinaryMorphologicalClosing = (\<lambda>radius img. img),
      ConnectedComponent = (\<lambda>img. img),
      GetPrincipalAxes = (\<lambda>img l. identity_direction 3),
      STAPLE = (\<lambda>foreground segs. fraction_of_raters segs)\<rparr>"

text \<open>
  A file system with a reference image and four rater masks of one voxel each, the last of
  them with a spacing of 2 mm where the reference has 1 mm; no other path exists, and every
  path can be written.
\<close>

definition example_files :: filesystem where
  "example_files =
     \<lparr>files = [''image.nii.gz'' \<mapsto> ImageFile (unit_volume [7]),
               ''rater_a.nii.gz'' \<mapsto> ImageFile (unit_mask [1]),
               ''rater_b.nii.gz'' \<mapsto> ImageFile (unit_mask [1]),
               ''rater_c.nii.gz'' \<mapsto> ImageFile (unit_mask [0]),
               ''rater_d.nii.gz'' \<mapsto> ImageFile ((unit_mask [1])\<lparr>GetSpacing := [2, 2, 2]\<rparr>)],
      writable = (\<lambda>path. True)\<rparr>"

section \<open>Properties of the normalizer\<close>

lemma np_unique_sorted_list: "np_unique arr = sorted_list_of_set (set arr)"
  by (simp add: np_unique_def sorted_list_of_set_sort_remdups)

lemma convert_returns:
  "is_floating (GetPixelID seg) \<or> \<not> length (np_unique (voxels seg)) > 2 \<Longrightarrow>
   convert_to_binary_mask seg =
     Inr (seg\<lparr>GetPixelID := sitkUInt8,
              voxels := map (\<lambda>v. if (if length (np_unique (voxels seg)) > 2 then 11/10 \<le> v
                                       else 0 < v)
                                   then 1 else 0) (voxels seg)\<rparr>)"
  by (auto simp: convert_to_binary_mask_def GetArrayFromImage_def BinaryThreshold_def
        Greater_def Cast_UInt8_def trunc_def comp_def)

lemma convert_raises:
  "\<not> is_floating (GetPixelID seg) \<Longrightarrow> length (np_unique (voxels seg)) > 2 \<Longrightarrow>
   convert_to_binary_mask seg = Inl ThresholdNotRepresentable"
  by (simp add: convert_to_binary_mask_def GetArrayFromImage_def BinaryThreshold_def)

lemma voxels_convert:
  assumes "convert_to_binary_mask seg = Inr out"
  shows "voxels out =
     map (\<lambda>v. if (if length (np_unique (voxels seg)) > 2 then 11/10 \<le> v else 0 < v)
               then 1 else 0) (voxels seg)"
proof (cases "is_floating (GetPixelID seg) \<or> \<not> length (np_unique (voxels seg)) > 2")
  case True
  from convert_returns [OF True] assms show ?thesis by auto
next
  case False
  then have "convert_to_binary_mask seg = Inl ThresholdNotRepresentable"
    using convert_raises [of seg] by simp
  with assms show ?thesis by simp
qed

lemma convert_values:
  "convert_to_binary_mask seg = Inr out \<Longrightarrow> set (voxels out) \<subseteq> {0, 1}"
  by (auto simp: voxels_convert)

lemma unique_binary:
  assumes "set arr \<subseteq> {0, 1}" "arr \<noteq> []"
  shows "np_unique arr = [0, 1] \<or> np_unique arr = [0] \<or> np_unique arr = [1]"
proof -
  from assms have "set arr = {0} \<or> set arr = {1} \<or> set arr = {0, 1}"
    by (cases arr) auto
  then show ?thesis
    by (auto simp: np_unique_sorted_list)
qed

lemma converted_nonempty:
  "convert_to_binary_mask seg = Inr out \<Longrightarrow> voxels seg \<noteq> [] \<Longrightarrow> voxels out \<noteq> []"
  by (simp add: voxels_convert)

lemma verify_converted:
  assumes "convert_to_binary_mask seg = Inr out" and "voxels seg \<noteq> []"
  shows "verify_segmentation_values out = Inr ()"
  using unique_binary [OF convert_values [OF assms(1)] converted_nonempty [OF assms]]
  by (auto simp: verify_segmentation_values_def Let_def GetArrayFromImage_def)

lemma unique_converted_le2:
  assumes "convert_to_binary_mask seg = Inr out" and "voxels seg \<noteq> []"
  shows "length (np_unique (voxels out)) \<le> 2"
  using unique_binary [OF convert_values [OF assms(1)] converted_nonempty [OF assms]]
  by auto

text \<open>
  C7, as the code has it by design. When a volume of a floating-point pixel type holds more
  than two distinct values, normalization returns the mask in which a voxel is foreground
  iff its value is at least 1.1 (the lower threshold of \<^verbatim>\<open>BinaryThreshold\<close> is
  included). When a volume of any pixel type holds at most two distinct values, it returns
  the mask in which a voxel is foreground iff its value is positive. Whenever normalization
  returns a mask of a volume with at least one voxel, at most two distinct values remain and
  the check for non-binary values succeeds. (On a volume of an integer pixel type with more
  than two distinct values the filter raises; the statement leaves that case out.)
\<close>

theorem normalization_cut:
  "(length (np_unique (voxels seg)) > 2 \<and> is_floating (GetPixelID seg) \<longrightarrow>
      map_sum id voxels (convert_to_binary_mask seg)
        = Inr (map (\<lambda>v. if v \<ge> 11/10 then 1 else 0) (voxels seg)))
   \<and> (\<not> length (np_unique (voxels seg)) > 2 \<longrightarrow>
      map_sum id voxels (convert_to_binary_mask seg)
        = Inr (map (\<lambda>v. if v > 0 then 1 else 0) (voxels seg)))
   \<and> (\<forall>out. convert_to_binary_mask seg = Inr out \<and> voxels seg \<noteq> [] \<longrightarrow>
          length (np_unique (voxels out)) \<le> 2 \<and> verify_segmentation_values out = Inr ())"
proof (intro conjI impI allI)
  assume "length (np_unique (voxels seg)) > 2 \<and> is_floating (GetPixelID seg)"
  then show "map_sum id voxels (convert_to_binary_mask seg)
        = Inr (map (\<lambda>v. if v \<ge> 11/10 then 1 else 0) (voxels seg))"
    using convert_returns [of seg] by simp
next
  assume "\<not> length (np_unique (voxels seg)) > 2"
  then show "map_sum id voxels (convert_to_binary_mask seg)
        = Inr (map (\<lambda>v. if v > 0 then 1 else 0) (voxels seg))"
    using convert_returns [of seg] by simp
next
  fix out
  assume "convert_to_binary_mask seg = Inr out \<and> voxels seg \<noteq> []"
  then show "length (np_unique (voxels out)) \<le> 2"
    using unique_converted_le2 by blast
next
  fix out
  assume "convert_to_binary_mask seg = Inr out \<and> voxels seg \<noteq> []"
  then show "verify_segmentation_values out = Inr ()"
    using verify_converted by blast
qed

theorem normalization_cut_witness:
  "length (np_unique (voxels (unit_volume [0, 11/10, 2]))) > 2
   \<and> is_floating (GetPixelID (unit_volume [0, 11/10, 2]))
   \<and> voxels (unit_volume [0, 11/10, 2]) \<noteq> []
   \<and> map_sum id voxels (convert_to_binary_mask (unit_volume [0, 11/10, 2])) = Inr [0, 1, 1]
   \<and> \<not> length (np_unique (voxels (unit_mask [0, 1, 1]))) > 2
   \<and> map_sum id voxels (convert_to_binary_mask (unit_mask [0, 1, 1])) = Inr [0, 1, 1]
   \<and> (\<exists>out. convert_to_binary_mask (unit_volume [0, 11/10, 2]) = Inr out
          \<and> length (np_unique (voxels out)) \<le> 2
          \<and> verify_segmentation_values out = Inr ())"
proof -
  let ?f = "unit_volume [0, 11/10, 2]"
  let ?m = "unit_mask [0, 1, 1]"
  have a: "length (np_unique (voxels ?f)) > 2"
    by (simp add: unit_volume_def np_unique_def)
  have t: "is_floating (GetPixelID ?f)"
    by (simp add: unit_volume_def is_floating_def)
  have b: "\<not> length (np_unique (voxels ?m)) > 2"
    by (simp add: unit_mask_def unit_volume_def np_unique_def)
  have c: "voxels ?f \<noteq> []"
    by (simp add: unit_volume_def)
  have vf: "voxels ?f = [0, 11/10, 2]" and vm: "voxels ?m = [0, 1, 1]"
    by (simp_all add: unit_mask_def unit_volume_def)
  have r1: "map_sum id voxels (convert_to_binary_mask ?f) = Inr [0, 1, 1]"
    using normalization_cut [of ?f] a t by (simp add: vf)
  have r2: "map_sum id voxels (convert_to_binary_mask ?m) = Inr [0, 1, 1]"
    using normalization_cut [of ?m] b by (simp add: vm)
  from r1 obtain out where out: "convert_to_binary_mask ?f = Inr out"
    by (cases "convert_to_binary_mask ?f") auto
  have r3: "length (np_unique (voxels out)) \<le> 2 \<and> verify_segmentation_values out = Inr ()"
    using normalization_cut [of ?f] out c by blast
  show ?thesis
    using a t c r1 b r2 out r3 by blast
qed

text \<open>
  C7 as stated fails at the boundary value: in the double-precision volume with values 0, 1.1
  and 2 the voxel holding 1.1 does not exceed 1.1, and normalization makes it foreground.
\<close>

theorem normalization_cut_counterexample:
  "length (np_unique (voxels (unit_volume [0, 11/10, 2]))) > 2
   \<and> \<not> (voxels (unit_volume [0, 11/10, 2]) ! 1 > 11/10)
   \<and> map_sum id (\<lambda>out. voxels out ! 1) (convert_to_binary_mask (unit_volume [0, 11/10, 2]))
       = Inr 1"
  by (simp add: convert_returns unit_volume_def is_floating_def np_unique_def)

text \<open>
  The case that the statement of C7 leaves out: a label volume of type \<^verbatim>\<open>uint8\<close> with
  the labels 0, 1 and 2 is not normalized, the threshold filter raises.
\<close>

lemma normalization_of_integer_labels:
  "convert_to_binary_mask (unit_mask [0, 1, 2]) = Inl ThresholdNotRepresentable"
  by (simp add: convert_raises unit_mask_def unit_volume_def is_floating_def np_unique_def)

section \<open>Properties of the adaptive thresholder\<close>

lemma np_mean_Some: "xs \<noteq> [] \<Longrightarrow> np_mean xs = Some (mean xs)"
  by (simp add: np_mean_def mean_def)

lemma np_std_Some: "xs \<noteq> [] \<Longrightarrow> np_std xs = Some (stddev xs)"
  by (simp add: np_std_def np_mean_def stddev_def mean_def)

lemma add_segmentations_ok:
  "\<forall>seg \<in> set segs. length (voxels seg) = length acc \<Longrightarrow>
   add_segmentations acc segs =
     Inr (map (\<lambda>i. acc ! i + sum_list (map (\<lambda>seg. voxels seg ! i) segs)) [0..<length acc])"
proof (induction segs arbitrary: acc)
  case Nil
  then show ?case by (simp add: map_nth)
next
  case (Cons seg segs)
  have len: "length (map2 (+) acc (voxels seg)) = length acc"
    using Cons.prems by simp
  have step: "add_segmentations (map2 (+) acc (voxels seg)) segs =
     Inr (map (\<lambda>i. map2 (+) acc (voxels seg) ! i + sum_list (map (\<lambda>s. voxels s ! i) segs))
            [0..<length (map2 (+) acc (voxels seg))])"
    by (rule Cons.IH) (use Cons.prems len in simp)
  show ?case
    using Cons.prems
    by (simp add: np_iadd_def GetArrayFromImage_def step add.assoc)
qed

lemma sum_pos_iff:
  "\<forall>seg \<in> set segs. 0 \<le> voxels seg ! i \<Longrightarrow>
   (0 < sum_list (map (\<lambda>seg. voxels seg ! i) segs)) = candidate segs i"
proof (induction segs)
  case Nil
  then show ?case by (simp add: candidate_def)
next
  case (Cons seg segs)
  have nn: "0 \<le> sum_list (map (\<lambda>seg. voxels seg ! i) segs)"
    using Cons.prems by (intro sum_list_nonneg) auto
  have hd: "0 \<le> voxels seg ! i" using Cons.prems by simp
  have IH: "(0 < sum_list (map (\<lambda>seg. voxels seg ! i) segs)) = candidate segs i"
    using Cons by simp
  have "candidate (seg # segs) i = (voxels seg ! i \<noteq> 0 \<or> candidate segs i)"
    by (simp add: candidate_def)
  with nn hd IH show ?case by auto
qed

lemma vessel_mask_of_ok:
  assumes shape: "\<forall>seg \<in> set segs. length (voxels seg) = length P"
    and nonneg: "\<forall>seg \<in> set segs. \<forall>v \<in> set (voxels seg). 0 \<le> v"
  shows "vessel_mask_of P segs = Inr (map (candidate segs) [0..<length P])"
proof -
  have "\<forall>seg \<in> set segs. \<forall>i < length P. 0 \<le> voxels seg ! i"
    using shape nonneg by (metis nth_mem)
  then have "\<forall>i < length P. (0 < sum_list (map (\<lambda>seg. voxels seg ! i) segs)) = candidate segs i"
    using sum_pos_iff by blast
  then show ?thesis
    using add_segmentations_ok [of segs "np_zeros_like P"] shape
    by (simp add: vessel_mask_of_def np_zeros_like_def)
qed

lemma np_select_region_aux:
  "map fst (filter snd (zip (map f js) (map R js))) = map f (filter R js)"
  by (induction js) auto

lemma np_select_region: "np_select P (map R [0..<length P]) = region P R"
  using np_select_region_aux [of "\<lambda>i. P ! i" "[0..<length P]" R]
  by (simp add: np_select_def region_def map_nth)

lemma np_select_region_not:
  "np_select P (map Not (map R [0..<length P])) = region P (\<lambda>i. \<not> R i)"
  using np_select_region [of P "\<lambda>i. \<not> R i"] by (simp add: comp_def)

lemma region_Nil: "(region P R = []) = (\<forall>i < length P. \<not> R i)"
  by (auto simp: region_def filter_empty_conv)

lemma region_all: "\<forall>i < length P. R i \<Longrightarrow> region P R = P"
proof -
  assume a: "\<forall>i < length P. R i"
  then have "filter R [0..<length P] = [0..<length P]"
    by (simp add: filter_id_conv)
  then show ?thesis by (simp add: region_def map_nth)
qed

lemma compute_optimal_thresholds_ok:
  assumes shape: "\<forall>seg \<in> set segs. length (voxels seg) = length (voxels P)"
    and nonneg: "\<forall>seg \<in> set segs. \<forall>v \<in> set (voxels seg). 0 \<le> v"
  shows "compute_optimal_thresholds P segs = Inr (thresholds_of (voxels P) segs)"
  by (simp add: compute_optimal_thresholds_def GetArrayFromImage_def Let_def thresholds_of_def
        vessel_mask_of_ok [OF shape nonneg] np_select_region np_select_region_not
        del: map_map)

lemma map2_nth_conv:
  "map2 f xs (map g [0..<length xs]) = map (\<lambda>i. f (xs ! i) (g i)) [0..<length xs]"
  by (rule nth_equalityI) simp_all

lemma adaptive_staple_threshold_ok:
  assumes shape: "\<forall>seg \<in> set segs. length (voxels seg) = length (voxels P)"
    and nonneg: "\<forall>seg \<in> set segs. \<forall>v \<in> set (voxels seg). 0 \<le> v"
  shows "adaptive_staple_threshold P segs =
     Inr (GetImageFromArray (GetSize P)
       (map (\<lambda>i. if nan_less (if candidate segs i then fst (thresholds_of (voxels P) segs)
                               else snd (thresholds_of (voxels P) segs)) (voxels P ! i)
                  then 1 else 0) [0..<length (voxels P)]))"
  by (simp add: adaptive_staple_threshold_def GetArrayFromImage_def Let_def
        vessel_mask_of_ok [OF shape nonneg] compute_optimal_thresholds_ok [OF shape nonneg]
        split_beta map2_nth_conv)

text \<open>
  C3. In adaptive mode, when the rater masks have the shape of the probability map and
  non-negative values (they are of type \<^verbatim>\<open>uint8\<close>), and neither the candidate region nor
  the background is empty, the thresholder returns a mask in which voxel \<open>i\<close> is foreground iff
  it lies in the candidate region and its probability exceeds the mean minus the standard
  deviation of the probabilities over that region, or lies in the background and its
  probability exceeds the mean plus the standard deviation over the background.
\<close>

theorem adaptive_threshold_rule:
  assumes shape: "\<forall>seg \<in> set segs. length (voxels seg) = length (voxels P)"
    and nonneg: "\<forall>seg \<in> set segs. \<forall>v \<in> set (voxels seg). 0 \<le> v"
    and cand: "\<exists>i < length (voxels P). candidate segs i"
    and bgr: "\<exists>i < length (voxels P). \<not> candidate segs i"
  shows "\<exists>out. adaptive_staple_threshold P segs = Inr out
           \<and> length (voxels out) = length (voxels P)
           \<and> (\<forall>i < length (voxels P).
                 voxels out ! i =
                   (if (candidate segs i \<and>
                          voxels P ! i > mean (region (voxels P) (candidate segs))
                                         - stddev (region (voxels P) (candidate segs)))
                       \<or> (\<not> candidate segs i \<and>
                          voxels P ! i > mean (region (voxels P) (\<lambda>i. \<not> candidate segs i))
                                         + stddev (region (voxels P) (\<lambda>i. \<not> candidate segs i)))
                    then 1 else 0))"
proof -
  have C: "region (voxels P) (candidate segs) \<noteq> []"
    using cand by (simp add: region_Nil)
  have B: "region (voxels P) (\<lambda>i. \<not> candidate segs i) \<noteq> []"
    using bgr by (simp add: region_Nil)
  have th: "thresholds_of (voxels P) segs =
      (Some (mean (region (voxels P) (candidate segs)) - stddev (region (voxels P) (candidate segs))),
       Some (mean (region (voxels P) (\<lambda>i. \<not> candidate segs i))
             + stddev (region (voxels P) (\<lambda>i. \<not> candidate segs i))))"
    by (simp add: thresholds_of_def Let_def np_mean_Some [OF C] np_std_Some [OF C]
          np_mean_Some [OF B] np_std_Some [OF B] nan_minus_def nan_plus_def)
  show ?thesis
    by (auto simp: adaptive_staple_threshold_ok [OF shape nonneg] th GetImageFromArray_def
          nan_less_def)
qed

theorem adaptive_threshold_rule_witness:
  "list_all (\<lambda>seg. length (voxels seg) = length (voxels (unit_volume [1/5, 2/5, 9/10, 1/10])))
      [unit_mask [1, 1, 0, 0], unit_mask [0, 1, 0, 0]]
   \<and> list_all (\<lambda>seg. list_all (\<lambda>v. 0 \<le> v) (voxels seg))
      [unit_mask [1, 1, 0, 0], unit_mask [0, 1, 0, 0]]
   \<and> candidate [unit_mask [1, 1, 0, 0], unit_mask [0, 1, 0, 0]] 0
   \<and> \<not> candidate [unit_mask [1, 1, 0, 0], unit_mask [0, 1, 0, 0]] 2
   \<and> (\<exists>out. adaptive_staple_threshold (unit_volume [1/5, 2/5, 9/10, 1/10])
                [unit_mask [1, 1, 0, 0], unit_mask [0, 1, 0, 0]] = Inr out
          \<and> length (voxels out) = 4
          \<and> voxels out ! 1 =
              (if 2/5 > mean [1/5, 2/5] - stddev [1/5, 2/5] then 1 else 0))"
proof -
  let ?P = "unit_volume [1/5, 2/5, 9/10, 1/10]"
  let ?S = "[unit_mask [1, 1, 0, 0], unit_mask [0, 1, 0, 0]]"
  have shape: "\<forall>seg \<in> set ?S. length (voxels seg) = length (voxels ?P)"
    by (simp add: unit_mask_def unit_volume_def)
  have nonneg: "\<forall>seg \<in> set ?S. \<forall>v \<in> set (voxels seg). 0 \<le> v"
    by (simp add: unit_mask_def unit_volume_def)
  have c0: "candidate ?S 0" and c1: "candidate ?S 1"
    and c2: "\<not> candidate ?S 2" and c3: "\<not> candidate ?S 3"
    by (simp_all add: candidate_def unit_mask_def unit_volume_def)
  have cand: "\<exists>i < length (voxels ?P). candidate ?S i"
    using c0 by (intro exI [of _ 0]) (simp add: unit_mask_def unit_volume_def)
  have bgr: "\<exists>i < length (voxels ?P). \<not> candidate ?S i"
    using c2 by (intro exI [of _ 2]) (simp add: unit_mask_def unit_volume_def)
  have upt4: "[0..<4] = [0, 1, 2, 3]"
    by (simp add: upt_rec)
  have reg: "region (voxels ?P) (candidate ?S) = [1/5, 2/5]"
    by (simp add: region_def candidate_def unit_mask_def unit_volume_def upt4)
  obtain out where out: "adaptive_staple_threshold ?P ?S = Inr out"
      "length (voxels out) = length (voxels ?P)"
      "\<forall>i < length (voxels ?P).
         voxels out ! i =
           (if (candidate ?S i \<and>
                  voxels ?P ! i > mean (region (voxels ?P) (candidate ?S))
                                 - stddev (region (voxels ?P) (candidate ?S)))
               \<or> (\<not> candidate ?S i \<and>
                  voxels ?P ! i > mean (region (voxels ?P) (\<lambda>i. \<not> candidate ?S i))
                                 + stddev (region (voxels ?P) (\<lambda>i. \<not> candidate ?S i)))
            then 1 else 0)"
    using adaptive_threshold_rule [OF shape nonneg cand bgr] by blast
  have len: "length (voxels out) = 4"
    using out(2) by (simp add: unit_mask_def unit_volume_def)
  have "(1::nat) < length (voxels ?P)"
    by (simp add: unit_mask_def unit_volume_def)
  with out(3) have "voxels out ! 1 =
      (if voxels ?P ! 1 > mean (region (voxels ?P) (candidate ?S))
                            - stddev (region (voxels ?P) (candidate ?S)) then 1 else 0)"
    using c1 by simp
  then have v1: "voxels out ! 1 = (if 2/5 > mean [1/5, 2/5] - stddev [1/5, 2/5] then 1 else 0)"
    by (simp add: reg) (simp add: unit_mask_def unit_volume_def)
  show ?thesis
    using shape nonneg c0 c2 out(1) len v1 unfolding list_all_iff by blast
qed

text \<open>
  C4, as the code has it. No fallback to the fixed threshold exists: when the candidate region
  is empty every voxel is compared with the background threshold, the mean plus the standard
  deviation of the whole probability map, and when the background is empty every voxel is
  compared with the mean minus the standard deviation of the whole map.
\<close>

theorem adaptive_empty_region:
  assumes shape: "\<forall>seg \<in> set segs. length (voxels seg) = length (voxels P)"
    and nonneg: "\<forall>seg \<in> set segs. \<forall>v \<in> set (voxels seg). 0 \<le> v"
  shows "((\<forall>i < length (voxels P). \<not> candidate segs i) \<longrightarrow>
            map_sum id voxels (adaptive_staple_threshold P segs) =
              Inr (map (\<lambda>p. if p > mean (voxels P) + stddev (voxels P) then 1 else 0) (voxels P)))
       \<and> ((\<forall>i < length (voxels P). candidate segs i) \<longrightarrow>
            map_sum id voxels (adaptive_staple_threshold P segs) =
              Inr (map (\<lambda>p. if p > mean (voxels P) - stddev (voxels P) then 1 else 0) (voxels P)))"
proof (intro conjI impI)
  assume none: "\<forall>i < length (voxels P). \<not> candidate segs i"
  have B: "region (voxels P) (\<lambda>i. \<not> candidate segs i) = voxels P"
    using none by (simp add: region_all)
  show "map_sum id voxels (adaptive_staple_threshold P segs) =
          Inr (map (\<lambda>p. if p > mean (voxels P) + stddev (voxels P) then 1 else 0) (voxels P))"
  proof (cases "voxels P = []")
    case True
    then show ?thesis
      by (simp add: adaptive_staple_threshold_ok [OF shape nonneg] GetImageFromArray_def)
  next
    case False
    have "snd (thresholds_of (voxels P) segs) = Some (mean (voxels P) + stddev (voxels P))"
      by (simp add: thresholds_of_def Let_def B np_mean_Some [OF False] np_std_Some [OF False]
            nan_plus_def)
    then show ?thesis
      using none
      by (simp add: adaptive_staple_threshold_ok [OF shape nonneg] GetImageFromArray_def
            nan_less_def) (rule nth_equalityI, simp_all)
  qed
next
  assume all: "\<forall>i < length (voxels P). candidate segs i"
  have C: "region (voxels P) (candidate segs) = voxels P"
    using all by (simp add: region_all)
  show "map_sum id voxels (adaptive_staple_threshold P segs) =
          Inr (map (\<lambda>p. if p > mean (voxels P) - stddev (voxels P) then 1 else 0) (voxels P))"
  proof (cases "voxels P = []")
    case True
    then show ?thesis
      by (simp add: adaptive_staple_threshold_ok [OF shape nonneg] GetImageFromArray_def)
  next
    case False
    have "fst (thresholds_of (voxels P) segs) = Some (mean (voxels P) - stddev (voxels P))"
      by (simp add: thresholds_of_def Let_def C np_mean_Some [OF False] np_std_Some [OF False]
            nan_minus_def)
    then show ?thesis
      using all
      by (simp add: adaptive_staple_threshold_ok [OF shape nonneg] GetImageFromArray_def
            nan_less_def) (rule nth_equalityI, simp_all)
  qed
qed

lemma sqrt_hundredth: "sqrt (1/100) = 1/10"
  by (rule real_sqrt_unique) (simp_all add: power2_eq_square)

lemma mean_example: "mean [1/5, 2/5] = 3/10"
  by (simp add: mean_def)

lemma stddev_example: "stddev [1/5, 2/5] = 1/10"
  unfolding stddev_def mean_example
  by (rule real_sqrt_unique) (simp_all add: power2_eq_square)

theorem adaptive_empty_region_witness:
  "list_all (\<lambda>seg. length (voxels seg) = length (voxels (unit_volume [1/5, 2/5])))
      [unit_mask [1, 1], unit_mask [0, 0]]
   \<and> list_all (\<lambda>seg. list_all (\<lambda>v. 0 \<le> v) (voxels seg)) [unit_mask [1, 1], unit_mask [0, 0]]
   \<and> list_all (candidate [unit_mask [1, 1]]) [0..<length (voxels (unit_volume [1/5, 2/5]))]
   \<and> map_sum id voxels (adaptive_staple_threshold (unit_volume [1/5, 2/5]) [unit_mask [1, 1]])
       = Inr [0, 1]
   \<and> list_all (\<lambda>i. \<not> candidate [unit_mask [0, 0]] i) [0..<length (voxels (unit_volume [1/5, 2/5]))]
   \<and> map_sum id voxels (adaptive_staple_threshold (unit_volume [1/5, 2/5]) [unit_mask [0, 0]])
       = Inr [0, 0]"
proof -
  let ?P = "unit_volume [1/5, 2/5]"
  have vP: "voxels ?P = [1/5, 2/5]"
    by (simp add: unit_mask_def unit_volume_def)
  have s1: "\<forall>seg \<in> set [unit_mask [1, 1]]. length (voxels seg) = length (voxels ?P)"
    and n1: "\<forall>seg \<in> set [unit_mask [1, 1]]. \<forall>v \<in> set (voxels seg). 0 \<le> v"
    and s0: "\<forall>seg \<in> set [unit_mask [0, 0]]. length (voxels seg) = length (voxels ?P)"
    and n0: "\<forall>seg \<in> set [unit_mask [0, 0]]. \<forall>v \<in> set (voxels seg). 0 \<le> v"
    by (simp_all add: unit_mask_def unit_volume_def)
  have all: "\<forall>i < length (voxels ?P). candidate [unit_mask [1, 1]] i"
    by (simp add: candidate_def unit_mask_def unit_volume_def less_Suc_eq)
  have none: "\<forall>i < length (voxels ?P). \<not> candidate [unit_mask [0, 0]] i"
    by (simp add: candidate_def unit_mask_def unit_volume_def less_Suc_eq)
  have r1: "map_sum id voxels (adaptive_staple_threshold ?P [unit_mask [1, 1]]) = Inr [0, 1]"
    using adaptive_empty_region [OF s1 n1] all
    by (simp add: vP mean_example stddev_example)
  have r0: "map_sum id voxels (adaptive_staple_threshold ?P [unit_mask [0, 0]]) = Inr [0, 0]"
    using adaptive_empty_region [OF s0 n0] none
    by (simp add: vP mean_example stddev_example)
  show ?thesis
    using s1 n1 all r1 s0 n0 none r0 unfolding list_all_iff by simp
qed

text \<open>
  C4 as stated fails: with an empty background and the probabilities 0.2 and 0.4, the adaptive
  thresholder marks the second voxel, which the fixed threshold 0.5 rejects.
\<close>

theorem adaptive_fallback_counterexample:
  "list_all (candidate [unit_mask [1, 1]]) [0..<length (voxels (unit_volume [1/5, 2/5]))]
   \<and> map_sum id voxels (adaptive_staple_threshold (unit_volume [1/5, 2/5]) [unit_mask [1, 1]])
       = Inr [0, 1]
   \<and> voxels (Cast_UInt8 (Greater (unit_volume [1/5, 2/5]) (1/2))) = [0, 0]"
proof -
  have all: "\<forall>i < length (voxels (unit_volume [1/5, 2/5])). candidate [unit_mask [1, 1]] i"
    by (simp add: candidate_def unit_mask_def unit_volume_def less_Suc_eq)
  have "map_sum id voxels (adaptive_staple_threshold (unit_volume [1/5, 2/5]) [unit_mask [1, 1]])
       = Inr [0, 1]"
    by (simp add: adaptive_staple_threshold_def unit_mask_def unit_volume_def Let_def GetArrayFromImage_def
          vessel_mask_of_def np_zeros_like_def np_iadd_def compute_optimal_thresholds_def
          np_select_def np_mean_def np_std_def nan_minus_def nan_plus_def nan_less_def
          GetImageFromArray_def power2_eq_square sqrt_hundredth)
  moreover have "voxels (Cast_UInt8 (Greater (unit_volume [1/5, 2/5]) (1/2))) = [0, 0]"
    by (simp add: Cast_UInt8_def Greater_def unit_mask_def unit_volume_def trunc_def)
  ultimately show ?thesis using all unfolding list_all_iff by simp
qed

section \<open>Properties of the validator\<close>

lemma check_segmentations_ok:
  assumes "length ref_spacing = length ref_size"
    and "\<forall>seg \<in> set segs. well_formed seg"
  shows "(\<forall>seg \<in> set segs. GetSize seg = ref_size \<and> list_all2 (isclose tolerance) (GetSpacing seg) ref_spacing)
           \<longrightarrow> check_segmentations ref_size ref_spacing i segs = Inr ()"
    and "(\<exists>seg \<in> set segs. \<not> (GetSize seg = ref_size \<and> list_all2 (isclose tolerance) (GetSpacing seg) ref_spacing))
           \<longrightarrow> (\<exists>e. check_segmentations ref_size ref_spacing i segs = Inl e \<and> spatial_mismatch e)"
  using assms
proof (induction segs arbitrary: i)
  case Nil
  { case 1 show ?case by simp }
  { case 2 show ?case by simp }
next
  case (Cons seg segs)
  { case 1
    then show ?case using Cons.IH(1) [of "Suc i"]
      by (auto simp: np_allclose_def well_formed_def) }
  { case 2
    then show ?case using Cons.IH(2) [of "Suc i"]
      by (auto simp: np_allclose_def well_formed_def spatial_mismatch_def) }
qed

lemma congruent_isclose:
  "spatially_congruent reference_image seg =
     (GetSize seg = GetSize reference_image
      \<and> list_all2 (isclose tolerance) (GetSpacing seg) (GetSpacing reference_image))"
  by (simp add: spatially_congruent_def isclose_def [abs_def] tolerance_def atol_def)

text \<open>
  The validator as a function of its arguments. For a three-dimensional reference and a
  non-empty list of masks (each image having one spacing entry per dimension), it fails, with
  the error for different dimensions or the one for different spacing, iff some mask's size
  differs from the reference's or some spacing entry differs from the reference's by more
  than \<open>10\<^sup>-\<^sup>8\<close> plus 0.1 percent of the reference's; otherwise it succeeds.
\<close>

lemma verify_spatial_consistency_characterised:
  assumes "segs \<noteq> []"
    and "length (GetSize reference_image) = 3"
    and "well_formed reference_image"
    and "\<forall>seg \<in> set segs. well_formed seg"
  shows "((\<exists>seg \<in> set segs. \<not> spatially_congruent reference_image seg) \<longrightarrow>
            (\<exists>e. verify_spatial_consistency reference_image segs = Inl e \<and> spatial_mismatch e))
       \<and> ((\<forall>seg \<in> set segs. spatially_congruent reference_image seg) \<longrightarrow>
            verify_spatial_consistency reference_image segs = Inr ())"
proof -
  have len: "length (GetSpacing reference_image) = length (GetSize reference_image)"
    using assms(3) by (simp add: well_formed_def)
  show ?thesis
    using assms(1,2) check_segmentations_ok [OF len assms(4), of 0]
    by (simp add: verify_spatial_consistency_def Let_def congruent_isclose)
qed

section \<open>Properties of the enhancer\<close>

lemma py_min_Min: "xs \<noteq> [] \<Longrightarrow> py_min xs = Inr (Min (set xs))"
  by (cases xs) (simp_all add: py_min_def Min.set_eq_fold [symmetric])

lemma Min_pos: "xs \<noteq> [] \<Longrightarrow> \<forall>x \<in> set xs. (0::real) < x \<Longrightarrow> 0 < Min (set xs)"
  by simp

lemma prod_list_positive: "\<forall>x \<in> set xs. (0::real) < x \<Longrightarrow> 0 < prod_list xs"
  by (induction xs) simp_all

lemma rank_pos: "(0 < rank l ks) = (l \<in> set ks)"
  by (induction ks) (auto simp: Let_def)

lemma GetLabels_set: "set (GetLabels c) = {v \<in> set (voxels c). v \<noteq> 0}"
  by (auto simp: GetLabels_def)

lemma relabel_foreground:
  "voxels (Cast_UInt8 (Greater (RelabelComponent m c) 0)) =
     map (\<lambda>l. if l \<noteq> 0 \<and> m \<le> count_list (voxels c) l then 1 else 0) (voxels c)"
  by (auto simp: Cast_UInt8_def Greater_def RelabelComponent_def Let_def rank_pos GetLabels_set
        GetNumberOfPixels_def trunc_def)

lemma relabel_header:
  "GetSize (Cast_UInt8 (Greater (RelabelComponent m c) 0)) = GetSize c"
  by (simp add: Cast_UInt8_def Greater_def RelabelComponent_def Let_def)

lemma relabel_image:
  "Cast_UInt8 (Greater (RelabelComponent m c) 0) =
     c\<lparr>GetPixelID := sitkUInt8,
       voxels := map (\<lambda>l. if l \<noteq> 0 \<and> m \<le> count_list (voxels c) l then 1 else 0) (voxels c)\<rparr>"
proof -
  have "Cast_UInt8 (Greater (RelabelComponent m c) 0) =
      c\<lparr>GetPixelID := sitkUInt8,
        voxels := voxels (Cast_UInt8 (Greater (RelabelComponent m c) 0))\<rparr>"
    by (simp add: Cast_UInt8_def Greater_def RelabelComponent_def Let_def)
  then show ?thesis by (simp only: relabel_foreground)
qed

lemma relabel_image_int:
  "0 \<le> m \<Longrightarrow>
   Cast_UInt8 (Greater (RelabelComponent (nat m) c) 0) =
     c\<lparr>GetPixelID := sitkUInt8,
       voxels := map (\<lambda>l. if l \<noteq> 0 \<and> m \<le> int (count_list (voxels c) l) then 1 else 0)
                   (voxels c)\<rparr>"
  by (simp add: relabel_image nat_le_iff)

text \<open>
  C5, as the code has it. For a reference image with positive spacing, the enhancement
  computes the kernel radius \<open>round(radius_mm / min(spacing))\<close> (Python's rounding) and the
  minimum object size \<open>int(\<pi> \<sqdot> radius_mm\<^sup>2 \<sqdot> min_length_mm / voxel_volume)\<close>, the quotient
  being truncated and not rounded. When the radius lies outside the unsigned 32-bit range or
  the size outside the unsigned 64-bit range, the filter rejects the parameter and the
  enhancement raises. Otherwise it dilates and then erodes the mask with that radius, labels
  the connected components of the result, and returns, with the reference's header, the mask
  of the voxels whose component has at least the minimum size: every component with fewer
  voxels is zeroed.
\<close>

theorem vessel_enhancement:
  assumes "GetSpacing original_image \<noteq> []"
    and "\<forall>s \<in> set (GetSpacing original_image). 0 < s"
  shows "enhance_vessel_connectivity lib binary_mask original_image radius_mm length_mm =
     (let kernel_radius_voxels = py_round (radius_mm / Min (set (GetSpacing original_image)));
          min_object_size =
            trunc (np_pi * radius_mm ^ 2 * length_mm / prod_list (GetSpacing original_image))
      in if kernel_radius_voxels < 0 \<or> uint32_max < kernel_radius_voxels
         then Inl KernelRadiusTypeError
         else if min_object_size < 0 \<or> uint64_max < min_object_size
         then Inl ObjectSizeOverflowError
         else
           (let components =
                  ConnectedComponent lib
                    (BinaryErode lib (nat kernel_radius_voxels)
                       (BinaryDilate lib (nat kernel_radius_voxels) binary_mask))
            in CopyInformation
                 (components\<lparr>GetPixelID := sitkUInt8,
                    voxels :=
                      map (\<lambda>l. if l \<noteq> 0
                                   \<and> min_object_size \<le> int (count_list (voxels components) l)
                                then 1 else 0)
                        (voxels components)\<rparr>)
                 original_image))"
proof -
  have m: "Min (set (GetSpacing original_image)) \<noteq> 0"
    using Min_pos [OF assms] by simp
  have p: "prod_list (GetSpacing original_image) \<noteq> 0"
    using prod_list_positive [OF assms(2)] by simp
  show ?thesis
    by (simp add: enhance_vessel_connectivity_def Let_def py_min_Min [OF assms(1)] m p
          np_prod_def relabel_image_int)
qed

lemma py_round_half_pi: "py_round (np_pi * 1 ^ 2 * (1/2) / prod_list [1, 1, 1]) = 2"
  by (simp add: py_round_def np_pi_def Let_def)

lemma trunc_half_pi: "trunc (np_pi * 1 ^ 2 * (1/2) / prod_list [1, 1, 1]) = 1"
  by (simp add: trunc_def np_pi_def)

lemma trunc_pi: "trunc (np_pi * 1 ^ 2 * 1 / prod_list [1, 1, 1]) = 3"
  by (simp add: trunc_def np_pi_def)

lemma py_round_one: "py_round 1 = 1"
  by (simp add: py_round_def Let_def)

lemma floor_minus_one: "\<lfloor>- 1 :: real\<rfloor> = - 1"
  using floor_of_int [of "- 1", where ?'a = real] by simp

lemma py_round_minus_one: "py_round (- 1) = - 1"
  by (simp add: py_round_def Let_def floor_minus_one)

theorem vessel_enhancement_witness:
  "GetSpacing (unit_volume [7]) \<noteq> []
   \<and> list_all (\<lambda>s. 0 < s) (GetSpacing (unit_volume [7]))
   \<and> map_sum id voxels
        (enhance_vessel_connectivity single_voxel_sitk (unit_mask [1]) (unit_volume [7]) 1 1)
       = Inr [0]
   \<and> enhance_vessel_connectivity single_voxel_sitk (unit_mask [1]) (unit_volume [7]) 1 (- 1)
       = Inl ObjectSizeOverflowError"
proof -
  have a: "GetSpacing (unit_volume [7]) \<noteq> []"
    and b: "\<forall>s \<in> set (GetSpacing (unit_volume [7])). 0 < s"
    by (simp_all add: unit_volume_def)
  have sp: "GetSpacing (unit_volume [7]) = [1, 1, 1]"
    by (simp add: unit_volume_def)
  have r1: "map_sum id voxels
        (enhance_vessel_connectivity single_voxel_sitk (unit_mask [1]) (unit_volume [7]) 1 1)
       = Inr [0]"
    unfolding vessel_enhancement [OF a b] sp
    using trunc_pi
    by (simp add: Let_def py_round_one uint32_max_def uint64_max_def single_voxel_sitk_def
          CopyInformation_def unit_mask_def unit_volume_def)
  have neg: "trunc (np_pi * 1 ^ 2 * (- 1) / prod_list [1, 1, 1]) < 0"
    by (simp add: trunc_def np_pi_def)
  have r2: "enhance_vessel_connectivity single_voxel_sitk (unit_mask [1]) (unit_volume [7]) 1 (- 1)
       = Inl ObjectSizeOverflowError"
    unfolding vessel_enhancement [OF a b] sp
    using neg
    by (simp add: Let_def py_round_one uint32_max_def)
  show ?thesis
    using a b r1 r2 unfolding list_all_iff by simp
qed

text \<open>
  C5 as stated fails twice. With unit spacing, radius 1 mm and minimum length 0.5 mm the
  rounded cylinder volume is 2 voxels, and the enhancement keeps a component of a single
  voxel (it compares with the truncated volume, 1). And not every radius yields a mask:
  with the radius -1 mm the kernel radius is -1, which the morphological filter rejects.
\<close>

theorem vessel_enhancement_counterexample:
  "py_round (np_pi * 1 ^ 2 * (1/2) / prod_list (GetSpacing (unit_volume [7]))) = 2
   \<and> count_list (voxels (ConnectedComponent single_voxel_sitk (unit_mask [1]))) 1 = 1
   \<and> map_sum id voxels
        (enhance_vessel_connectivity single_voxel_sitk (unit_mask [1]) (unit_volume [7]) 1 (1/2))
       = Inr [1]
   \<and> enhance_vessel_connectivity single_voxel_sitk (unit_mask [1]) (unit_volume [7]) (- 1) 1
       = Inl KernelRadiusTypeError"
proof -
  have sp: "GetSpacing (unit_volume [7]) = [1, 1, 1]"
    by (simp add: unit_volume_def)
  have c: "count_list (voxels (ConnectedComponent single_voxel_sitk (unit_mask [1]))) 1 = 1"
    by (simp add: single_voxel_sitk_def unit_mask_def unit_volume_def)
  have e: "map_sum id voxels
        (enhance_vessel_connectivity single_voxel_sitk (unit_mask [1]) (unit_volume [7]) 1 (1/2))
       = Inr [1]"
    using trunc_half_pi
    by (simp add: enhance_vessel_connectivity_def Let_def py_min_def np_prod_def py_round_one
          uint32_max_def uint64_max_def single_voxel_sitk_def CopyInformation_def
          unit_mask_def unit_volume_def relabel_foreground relabel_header)
  have n: "enhance_vessel_connectivity single_voxel_sitk (unit_mask [1]) (unit_volume [7]) (- 1) 1
       = Inl KernelRadiusTypeError"
    by (simp add: enhance_vessel_connectivity_def Let_def py_min_def np_prod_def
          py_round_minus_one unit_volume_def)
  show ?thesis
    using py_round_half_pi c e n by (simp add: sp)
qed

section \<open>Properties of the vessel statistics\<close>

lemma measure_component_volume:
  "measure_component lib spacing components l = Inr m \<Longrightarrow>
   volume_mm3 m =
     real (count_list (voxels components) l) * prod_list (GetSpacing components) * prod_list spacing"
  by (auto simp: measure_component_def Let_def GetPhysicalSize_def GetNumberOfPixels_def
        np_prod_def split: sum.splits)

text \<open>
  C6 at a concrete input. A rater mask of a single foreground voxel with spacing 2 mm along
  each axis has one component of one voxel, hence of 1 \<times> 8 = 8 cubic millimetres; the statistics step
  reports 64 cubic millimetres, the physical size of the component multiplied once more by the volume
  of a voxel.
\<close>

theorem component_volume_evaluation:
  "GetLabels (ConnectedComponent single_voxel_sitk ((unit_mask [1])\<lparr>GetSpacing := [2, 2, 2]\<rparr>)) = [1]
   \<and> real (GetNumberOfPixels
         (ConnectedComponent single_voxel_sitk ((unit_mask [1])\<lparr>GetSpacing := [2, 2, 2]\<rparr>)) 1)
       * prod_list (GetSpacing ((unit_volume [7])\<lparr>GetSpacing := [2, 2, 2]\<rparr>)) = 8
   \<and> map_sum id (map min_volume_mm3 \<circ> detailed_stats)
        (analyze_vessel_characteristics single_voxel_sitk
           [(unit_mask [1])\<lparr>GetSpacing := [2, 2, 2]\<rparr>]
           ((unit_volume [7])\<lparr>GetSpacing := [2, 2, 2]\<rparr>)) = Inr [64]"
  by (simp add: analyze_vessel_characteristics_def analyze_segmentation_def measure_component_def
        Let_def single_voxel_sitk_def unit_mask_def unit_volume_def GetLabels_def GetNumberOfPixels_def
        GetPhysicalSize_def np_prod_def py_max_def py_min_def np_min_def identity_direction_def
        upt_rec)

section \<open>Properties of the pipeline\<close>

lemma read_segmentations_none:
  "\<forall>p \<in> set paths. \<not> os_path_exists fs p \<Longrightarrow> read_segmentations fs original_image paths = Inr []"
  by (induction paths) simp_all

text \<open>
  C8, as the code has it. The pipeline raises the error for too few segmentations whenever
  fewer than two paths are supplied. When two or more paths are supplied, the reference image
  is readable and none of the paths exists, it raises nothing: it returns without a result
  and leaves the file system as it was.
\<close>

theorem insufficient_raters:
  "(length segmentation_paths < 2 \<longrightarrow>
      create_staple_consensus lib fs original_image_path segmentation_paths output_path
        confidence_threshold do_preprocessing do_adaptive_thresholding do_vessel_enhancement
      = Inl TooFewSegmentations)
   \<and> (2 \<le> length segmentation_paths
        \<and> ReadImage fs original_image_path = Inr original_image
        \<and> (\<forall>p \<in> set segmentation_paths. \<not> os_path_exists fs p) \<longrightarrow>
      create_staple_consensus lib fs original_image_path segmentation_paths output_path
        confidence_threshold do_preprocessing do_adaptive_thresholding do_vessel_enhancement
      = Inr (None, fs))"
  by (simp add: create_staple_consensus_def read_segmentations_none)

lemma example_exists:
  "os_path_exists example_files p =
     (p \<in> {''image.nii.gz'', ''rater_a.nii.gz'', ''rater_b.nii.gz'', ''rater_c.nii.gz'',
            ''rater_d.nii.gz''})"
  by (simp add: os_path_exists_def example_files_def)

lemma example_read_image: "ReadImage example_files ''image.nii.gz'' = Inr (unit_volume [7])"
  by (simp add: ReadImage_def example_files_def)

theorem insufficient_raters_witness:
  "length [''rater_a.nii.gz''] < 2
   \<and> create_staple_consensus single_voxel_sitk example_files ''image.nii.gz'' [''rater_a.nii.gz'']
        ''consensus.nii.gz'' (1/2) True True True = Inl TooFewSegmentations
   \<and> 2 \<le> length [''rater_x.nii.gz'', ''rater_y.nii.gz'']
   \<and> ReadImage example_files ''image.nii.gz'' = Inr (unit_volume [7])
   \<and> list_all (\<lambda>p. \<not> os_path_exists example_files p) [''rater_x.nii.gz'', ''rater_y.nii.gz'']
   \<and> create_staple_consensus single_voxel_sitk example_files ''image.nii.gz''
        [''rater_x.nii.gz'', ''rater_y.nii.gz''] ''consensus.nii.gz'' (1/2) True True True
      = Inr (None, example_files)"
proof -
  have a: "length [''rater_a.nii.gz''] < 2" by simp
  have b: "2 \<le> length [''rater_x.nii.gz'', ''rater_y.nii.gz'']" by simp
  have c: "\<forall>p \<in> set [''rater_x.nii.gz'', ''rater_y.nii.gz'']. \<not> os_path_exists example_files p"
    by (simp add: example_exists)
  show ?thesis
    using a b c example_read_image
      insufficient_raters [of "[''rater_a.nii.gz'']" single_voxel_sitk example_files
        "''image.nii.gz''" "''consensus.nii.gz''" "1/2" True True True]
      insufficient_raters [of "[''rater_x.nii.gz'', ''rater_y.nii.gz'']" single_voxel_sitk
        example_files "''image.nii.gz''" "''consensus.nii.gz''" "1/2" True True True
        "unit_volume [7]"]
    unfolding list_all_iff by blast
qed

text \<open>
  C8 as stated fails: two paths are supplied and neither exists, so the rater set that is
  processed is empty, and the pipeline returns without raising.
\<close>

theorem insufficient_raters_counterexample:
  "list_all (\<lambda>p. \<not> os_path_exists example_files p) [''rater_x.nii.gz'', ''rater_y.nii.gz'']
   \<and> read_segmentations example_files (unit_volume [7]) [''rater_x.nii.gz'', ''rater_y.nii.gz''] = Inr []
   \<and> create_staple_consensus single_voxel_sitk example_files ''image.nii.gz''
        [''rater_x.nii.gz'', ''rater_y.nii.gz''] ''consensus.nii.gz'' (1/2) True True True
      = Inr (None, example_files)"
  by (simp add: create_staple_consensus_def example_exists example_read_image)

lemma analyze_segmentation_no_labels:
  "GetLabels (ConnectedComponent lib seg) = [] \<Longrightarrow>
   analyze_segmentation lib spacing seg = Inl ZeroSizeReduction"
  by (simp add: analyze_segmentation_def Let_def np_min_def)

lemma map_raising_fails:
  "\<exists>x \<in> set xs. \<exists>e. f x = Inl e \<Longrightarrow> \<exists>e. map_raising f xs = Inl e"
proof (induction xs)
  case Nil
  then show ?case by simp
next
  case (Cons x xs)
  show ?case
  proof (cases "f x")
    case (Inl e)
    then show ?thesis by simp
  next
    case (Inr y)
    with Cons.prems have "\<exists>x \<in> set xs. \<exists>e. f x = Inl e" by auto
    then have "\<exists>e. map_raising f xs = Inl e" by (rule Cons.IH)
    then obtain e where "map_raising f xs = Inl e" by (rule exE)
    with Inr show ?thesis by simp
  qed
qed

lemma analysis_fails:
  assumes "\<exists>seg \<in> set segs. GetLabels (ConnectedComponent lib seg) = []"
  shows "\<exists>e. analyze_vessel_characteristics lib segs original_image = Inl e"
proof -
  from assms obtain seg where seg: "seg \<in> set segs"
      "GetLabels (ConnectedComponent lib seg) = []"
    by blast
  have "analyze_segmentation lib (GetSpacing original_image) seg = Inl ZeroSizeReduction"
    using seg(2) by (rule analyze_segmentation_no_labels)
  with seg(1) have
    "\<exists>x \<in> set segs. \<exists>e. analyze_segmentation lib (GetSpacing original_image) x = Inl e"
    by (intro bexI [of _ seg] exI [of _ ZeroSizeReduction])
  then have
    "\<exists>e. map_raising (analyze_segmentation lib (GetSpacing original_image)) segs = Inl e"
    by (rule map_raising_fails)
  then obtain e where
    "map_raising (analyze_segmentation lib (GetSpacing original_image)) segs = Inl e"
    by (rule exE)
  then show ?thesis
    by (simp add: analyze_vessel_characteristics_def Let_def)
qed

lemma enhancement_step_analysis_fails:
  "analyze_vessel_characteristics lib segs original_image = Inl e \<Longrightarrow>
   enhancement_step lib segs original_image binary_consensus = binary_consensus"
  by (simp add: enhancement_step_def)

text \<open>
  C9. Let a run reach the enhancement stage: at least two paths, a readable reference image,
  a non-empty list of masks that passes validation, and a thresholding stage that returns
  \<open>binary_consensus\<close>. If a (preprocessed) rater mask has no connected component, the
  analysis of the vessel statistics raises, the exception is caught, and the run goes on
  to persist \<open>binary_consensus\<close> with the reference's header: the result is that of copying
  the header to \<open>binary_consensus\<close> and writing it, whatever the enhancement would have done.
\<close>

theorem enhancement_failure:
  assumes "2 \<le> length segmentation_paths"
    and "ReadImage fs original_image_path = Inr original_image"
    and "read_segmentations fs original_image segmentation_paths = Inr segmentations"
    and "segmentations \<noteq> []"
    and "verify_spatial_consistency original_image segmentations = Inr ()"
    and "preprocessed_segs =
           (if do_preprocessing then map (preprocess_segmentation lib) segmentations
            else segmentations)"
    and "(if do_adaptive_thresholding
          then adaptive_staple_threshold (STAPLE lib 1 preprocessed_segs) preprocessed_segs
          else Inr (Cast_UInt8 (Greater (STAPLE lib 1 preprocessed_segs) confidence_threshold)))
         = Inr binary_consensus"
    and "\<exists>seg \<in> set preprocessed_segs. GetLabels (ConnectedComponent lib seg) = []"
  shows "(\<exists>e. analyze_vessel_characteristics lib preprocessed_segs original_image = Inl e)
       \<and> create_staple_consensus lib fs original_image_path segmentation_paths output_path
           confidence_threshold do_preprocessing do_adaptive_thresholding True
         = (case CopyInformation binary_consensus original_image of
              Inl e \<Rightarrow> Inl e
            | Inr persisted \<Rightarrow>
                (case WriteImage fs persisted output_path of
                   Inl e \<Rightarrow> Inl ErrorSaving
                 | Inr fs' \<Rightarrow> Inr (Some persisted, fs')))"
proof -
  obtain e where e: "analyze_vessel_characteristics lib preprocessed_segs original_image = Inl e"
    using analysis_fails [OF assms(8)] by blast
  have step: "enhancement_step lib preprocessed_segs original_image binary_consensus
      = binary_consensus"
    using e by (rule enhancement_step_analysis_fails)
  have short: "\<not> length segmentation_paths < 2"
    using assms(1) by simp
  have "create_staple_consensus lib fs original_image_path segmentation_paths output_path
           confidence_threshold do_preprocessing do_adaptive_thresholding True
         = (case CopyInformation
                   (enhancement_step lib preprocessed_segs original_image binary_consensus)
                   original_image of
              Inl e \<Rightarrow> Inl e
            | Inr persisted \<Rightarrow>
                (case WriteImage fs persisted output_path of
                   Inl e \<Rightarrow> Inl ErrorSaving
                 | Inr fs' \<Rightarrow> Inr (Some persisted, fs')))"
    unfolding create_staple_consensus_def Let_def
    by (simp only: short if_False assms(2) assms(3) assms(4) assms(5)
          assms(7) [unfolded assms(6)] assms(6) sum.case if_True)
  then have "create_staple_consensus lib fs original_image_path segmentation_paths output_path
           confidence_threshold do_preprocessing do_adaptive_thresholding True
         = (case CopyInformation binary_consensus original_image of
              Inl e \<Rightarrow> Inl e
            | Inr persisted \<Rightarrow>
                (case WriteImage fs persisted output_path of
                   Inl e \<Rightarrow> Inl ErrorSaving
                 | Inr fs' \<Rightarrow> Inr (Some persisted, fs')))"
    by (simp only: step)
  moreover have "\<exists>e. analyze_vessel_characteristics lib preprocessed_segs original_image = Inl e"
    using e by (rule exI)
  ultimately show ?thesis by (rule conjI [rotated])
qed

lemma example_read_rater:
  "read_segmentation example_files (unit_volume [7]) ''rater_a.nii.gz'' = Inr (unit_mask [1])"
  "read_segmentation example_files (unit_volume [7]) ''rater_b.nii.gz'' = Inr (unit_mask [1])"
  "read_segmentation example_files (unit_volume [7]) ''rater_c.nii.gz'' = Inr (unit_mask [0])"
  "read_segmentation example_files (unit_volume [7]) ''rater_d.nii.gz'' = Inr (unit_mask [1])"
  by (simp_all add: read_segmentation_def ReadImage_def example_files_def
        convert_to_binary_mask_def verify_segmentation_values_def GetArrayFromImage_def
        np_unique_def Greater_def Cast_UInt8_def trunc_def CopyInformation_def
        unit_mask_def unit_volume_def Let_def)

lemma example_read_two:
  "read_segmentations example_files (unit_volume [7]) [''rater_a.nii.gz'', ''rater_c.nii.gz'']
     = Inr [unit_mask [1], unit_mask [0]]"
  by (simp add: example_exists example_read_rater)

lemma example_verify_two:
  "verify_spatial_consistency (unit_volume [7]) [unit_mask [1], unit_mask [0]] = Inr ()"
  by (simp add: verify_spatial_consistency_def Let_def unit_mask_def unit_volume_def np_allclose_def
        isclose_def atol_def tolerance_def)

lemma example_preprocess:
  "preprocess_segmentation single_voxel_sitk (unit_mask [1]) = unit_mask [1]"
  "preprocess_segmentation single_voxel_sitk (unit_mask [0]) = unit_mask [0]"
  by (simp_all add: preprocess_segmentation_def single_voxel_sitk_def Cast_UInt8_def trunc_def
        unit_mask_def unit_volume_def Let_def)

lemma example_staple_two:
  "STAPLE single_voxel_sitk 1 [unit_mask [1], unit_mask [0]] = unit_volume [1/2]"
  by (simp add: single_voxel_sitk_def fraction_of_raters_def unit_mask_def unit_volume_def)

lemma example_threshold_half:
  "Cast_UInt8 (Greater (unit_volume [1/2]) (1/2)) = unit_mask [0]"
  by (simp add: Cast_UInt8_def Greater_def trunc_def unit_mask_def unit_volume_def)

lemma example_no_labels:
  "GetLabels (ConnectedComponent single_voxel_sitk (unit_mask [0])) = []"
  by (simp add: GetLabels_def single_voxel_sitk_def unit_mask_def unit_volume_def)

theorem enhancement_failure_witness:
  "2 \<le> length [''rater_a.nii.gz'', ''rater_c.nii.gz'']
   \<and> ReadImage example_files ''image.nii.gz'' = Inr (unit_volume [7])
   \<and> read_segmentations example_files (unit_volume [7]) [''rater_a.nii.gz'', ''rater_c.nii.gz'']
       = Inr [unit_mask [1], unit_mask [0]]
   \<and> verify_spatial_consistency (unit_volume [7]) [unit_mask [1], unit_mask [0]] = Inr ()
   \<and> map (preprocess_segmentation single_voxel_sitk) [unit_mask [1], unit_mask [0]]
       = [unit_mask [1], unit_mask [0]]
   \<and> Cast_UInt8 (Greater (STAPLE single_voxel_sitk 1 [unit_mask [1], unit_mask [0]]) (1/2))
       = unit_mask [0]
   \<and> GetLabels (ConnectedComponent single_voxel_sitk (unit_mask [0])) = []
   \<and> (\<exists>e. analyze_vessel_characteristics single_voxel_sitk [unit_mask [1], unit_mask [0]]
              (unit_volume [7]) = Inl e)
   \<and> create_staple_consensus single_voxel_sitk example_files ''image.nii.gz''
        [''rater_a.nii.gz'', ''rater_c.nii.gz''] ''consensus.nii.gz'' (1/2) True False True
       = Inr (Some (unit_mask [0]),
              example_files\<lparr>files := (files example_files)
                 (''consensus.nii.gz'' \<mapsto> ImageFile (unit_mask [0]))\<rparr>)"
proof -
  let ?segs = "[unit_mask [1], unit_mask [0]]"
  have h1: "2 \<le> length [''rater_a.nii.gz'', ''rater_c.nii.gz'']" by simp
  have h4: "?segs \<noteq> []" by simp
  have pre: "map (preprocess_segmentation single_voxel_sitk) ?segs = ?segs"
    by (simp add: example_preprocess)
  have h6: "?segs = (if True then map (preprocess_segmentation single_voxel_sitk) ?segs else ?segs)"
    by (simp add: example_preprocess)
  have thr: "Cast_UInt8 (Greater (STAPLE single_voxel_sitk 1 ?segs) (1/2)) = unit_mask [0]"
    by (simp only: example_staple_two example_threshold_half)
  have h7: "(if False then adaptive_staple_threshold (STAPLE single_voxel_sitk 1 ?segs) ?segs
             else Inr (Cast_UInt8 (Greater (STAPLE single_voxel_sitk 1 ?segs) (1/2))))
            = Inr (unit_mask [0])"
    by (simp only: if_False thr)
  have h8: "\<exists>seg \<in> set ?segs. GetLabels (ConnectedComponent single_voxel_sitk seg) = []"
    using example_no_labels by simp
  note inst = enhancement_failure [OF h1 example_read_image example_read_two h4
      example_verify_two h6 h7 h8, of "''consensus.nii.gz''"]
  have copy: "CopyInformation (unit_mask [0]) (unit_volume [7]) = Inr (unit_mask [0])"
    by (simp add: CopyInformation_def unit_mask_def unit_volume_def)
  have wr: "WriteImage example_files (unit_mask [0]) ''consensus.nii.gz''
      = Inr (example_files\<lparr>files := (files example_files)
                 (''consensus.nii.gz'' \<mapsto> ImageFile (unit_mask [0]))\<rparr>)"
    by (simp add: WriteImage_def example_files_def)
  have run: "create_staple_consensus single_voxel_sitk example_files ''image.nii.gz''
        [''rater_a.nii.gz'', ''rater_c.nii.gz''] ''consensus.nii.gz'' (1/2) True False True
       = Inr (Some (unit_mask [0]),
              example_files\<lparr>files := (files example_files)
                 (''consensus.nii.gz'' \<mapsto> ImageFile (unit_mask [0]))\<rparr>)"
    using inst by (simp only: copy wr sum.case)
  show ?thesis
    using h1 example_read_image example_read_two example_verify_two pre thr example_no_labels
      inst run
    by (intro conjI) (simp_all only:)
qed

lemma base_run_unfold:
  "call_create_staple_consensus lib fs source_path segmentation_paths base_output_path
     (base_kwargs (main_kwargs staple_params))
   = create_staple_consensus lib fs source_path segmentation_paths base_output_path
       (case staple_params ''confidence_threshold'' of None \<Rightarrow> 8/10 | Some t \<Rightarrow> t)
       False False False"
  by (simp add: call_create_staple_consensus_def base_kwargs_def main_kwargs_def)

lemma voxels_fixed_threshold:
  "voxels (Cast_UInt8 (Greater P t)) = map (\<lambda>p. if p > t then 1 else 0) (voxels P)"
  by (simp add: Cast_UInt8_def Greater_def trunc_def comp_def)

lemma CopyInformation_voxels: "CopyInformation img src = Inr img' \<Longrightarrow> voxels img' = voxels img"
  by (auto simp: CopyInformation_def split: if_splits)

lemma WriteImage_files: "WriteImage fs img path = Inr fs' \<Longrightarrow> files fs' path = Some (ImageFile img)"
  by (auto simp: WriteImage_def split: if_splits)

lemma fixed_run:
  assumes "create_staple_consensus lib fs source_path segmentation_paths output_path t
             False False False = Inr (Some out, fs')"
  shows "\<exists>original_image segmentations.
           ReadImage fs source_path = Inr original_image
         \<and> read_segmentations fs original_image segmentation_paths = Inr segmentations
         \<and> voxels out = map (\<lambda>p. if p > t then 1 else 0) (voxels (STAPLE lib 1 segmentations))
         \<and> files fs' output_path = Some (ImageFile out)"
proof -
  from assms obtain original_image where orig: "ReadImage fs source_path = Inr original_image"
    by (auto simp: create_staple_consensus_def split: if_splits sum.splits)
  from assms orig obtain segmentations where
    segs: "read_segmentations fs original_image segmentation_paths = Inr segmentations"
    by (auto simp: create_staple_consensus_def split: if_splits sum.splits)
  from assms orig segs obtain binary where
    copy: "CopyInformation (Cast_UInt8 (Greater (STAPLE lib 1 segmentations) t)) original_image
             = Inr binary"
    and wr: "WriteImage fs binary output_path = Inr fs'" and out: "out = binary"
    by (auto simp: create_staple_consensus_def Let_def split: if_splits sum.splits)
  have "voxels out = map (\<lambda>p. if p > t then 1 else 0) (voxels (STAPLE lib 1 segmentations))"
    using CopyInformation_voxels [OF copy] out by (simp add: voxels_fixed_threshold)
  moreover have "files fs' output_path = Some (ImageFile out)"
    using WriteImage_files [OF wr] out by simp
  ultimately show ?thesis
    using orig segs by blast
qed

text \<open>
  C1, as the code has it. The base run is the second call of \<^verbatim>\<open>compute_staple\<close>, with the
  keyword arguments that \<^verbatim>\<open>main\<close> passes and the three switches off. When it returns a
  mask, the mask is written to the output path, and its voxel is 1 iff the probability that
  the STAPLE filter assigns to the voxel, from the normalized masks, exceeds the confidence
  threshold of the parameter file, or 0.8 when the file sets none.
\<close>

theorem base_consensus:
  assumes "call_create_staple_consensus lib fs source_path segmentation_paths base_output_path
             (base_kwargs (main_kwargs staple_params)) = Inr (Some out, fs')"
  shows "\<exists>original_image segmentations.
           ReadImage fs source_path = Inr original_image
         \<and> read_segmentations fs original_image segmentation_paths = Inr segmentations
         \<and> voxels out =
             map (\<lambda>p. if p > (case staple_params ''confidence_threshold'' of
                                None \<Rightarrow> 8/10 | Some t \<Rightarrow> t) then 1 else 0)
               (voxels (STAPLE lib 1 segmentations))
         \<and> files fs' base_output_path = Some (ImageFile out)"
  using assms unfolding base_run_unfold by (rule fixed_run)

lemma example_read_three:
  "read_segmentations example_files (unit_volume [7])
     [''rater_a.nii.gz'', ''rater_b.nii.gz'', ''rater_c.nii.gz'']
     = Inr [unit_mask [1], unit_mask [1], unit_mask [0]]"
  by (simp add: example_exists example_read_rater)

lemma example_verify_three:
  "verify_spatial_consistency (unit_volume [7]) [unit_mask [1], unit_mask [1], unit_mask [0]]
     = Inr ()"
  by (simp add: verify_spatial_consistency_def Let_def unit_mask_def unit_volume_def np_allclose_def
        isclose_def atol_def tolerance_def)

lemma example_staple_three:
  "STAPLE single_voxel_sitk 1 [unit_mask [1], unit_mask [1], unit_mask [0]]
     = unit_volume [2/3]"
  by (simp add: single_voxel_sitk_def fraction_of_raters_def unit_mask_def unit_volume_def)

lemma example_threshold_two_thirds:
  "Cast_UInt8 (Greater (unit_volume [2/3]) (1/2)) = unit_mask [1]"
  "Cast_UInt8 (Greater (unit_volume [2/3]) (4/5)) = unit_mask [0]"
  by (simp_all add: Cast_UInt8_def Greater_def trunc_def unit_mask_def unit_volume_def)

lemma example_copy:
  "CopyInformation (unit_volume [v]) (unit_volume [7]) = Inr (unit_volume [v])"
  by (simp add: CopyInformation_def unit_mask_def unit_volume_def)

lemma example_write:
  "WriteImage example_files img path
     = Inr (example_files\<lparr>files := (files example_files)(path \<mapsto> ImageFile img)\<rparr>)"
  by (simp add: WriteImage_def example_files_def)

lemma example_base_run:
  "create_staple_consensus single_voxel_sitk example_files ''image.nii.gz''
     [''rater_a.nii.gz'', ''rater_b.nii.gz'', ''rater_c.nii.gz''] ''base.nii.gz'' t
     False False False
   = Inr (Some (Cast_UInt8 (Greater (unit_volume [2/3]) t)),
          example_files\<lparr>files := (files example_files)
             (''base.nii.gz'' \<mapsto> ImageFile (Cast_UInt8 (Greater (unit_volume [2/3]) t)))\<rparr>)"
proof -
  have copy: "CopyInformation (Cast_UInt8 (Greater (unit_volume [2/3]) t)) (unit_volume [7])
      = Inr (Cast_UInt8 (Greater (unit_volume [2/3]) t))"
    by (simp add: CopyInformation_def Cast_UInt8_def Greater_def unit_mask_def unit_volume_def)
  show ?thesis
    by (simp add: create_staple_consensus_def example_read_image example_read_three
          example_verify_three example_staple_three copy example_write
          del: read_segmentations.simps)
qed

theorem base_consensus_witness:
  "call_create_staple_consensus single_voxel_sitk example_files ''image.nii.gz''
     [''rater_a.nii.gz'', ''rater_b.nii.gz'', ''rater_c.nii.gz''] ''base.nii.gz''
     (base_kwargs (main_kwargs [''confidence_threshold'' \<mapsto> 1/2]))
   = Inr (Some (unit_mask [1]),
          example_files\<lparr>files := (files example_files)
             (''base.nii.gz'' \<mapsto> ImageFile (unit_mask [1]))\<rparr>)
   \<and> (\<exists>original_image segmentations.
           ReadImage example_files ''image.nii.gz'' = Inr original_image
         \<and> read_segmentations example_files original_image
               [''rater_a.nii.gz'', ''rater_b.nii.gz'', ''rater_c.nii.gz''] = Inr segmentations
         \<and> voxels (unit_mask [1]) =
             map (\<lambda>p. if p > 1/2 then 1 else 0) (voxels (STAPLE single_voxel_sitk 1 segmentations)))"
proof -
  have run: "call_create_staple_consensus single_voxel_sitk example_files ''image.nii.gz''
     [''rater_a.nii.gz'', ''rater_b.nii.gz'', ''rater_c.nii.gz''] ''base.nii.gz''
     (base_kwargs (main_kwargs [''confidence_threshold'' \<mapsto> 1/2]))
   = Inr (Some (unit_mask [1]),
          example_files\<lparr>files := (files example_files)
             (''base.nii.gz'' \<mapsto> ImageFile (unit_mask [1]))\<rparr>)"
    unfolding base_run_unfold
    by (simp add: example_base_run example_threshold_two_thirds)
  show ?thesis
    using run base_consensus [OF run] by auto
qed

text \<open>
  C1 as stated fails: when the parameter file sets no confidence threshold, the base run
  thresholds at 0.8, and a voxel of probability 2/3, which exceeds 0.5, is background in the
  base output.
\<close>

theorem base_consensus_counterexample:
  "voxels (STAPLE single_voxel_sitk 1 [unit_mask [1], unit_mask [1], unit_mask [0]]) = [2/3]
   \<and> (2/3 :: real) > 1/2
   \<and> map_sum id (map_option voxels \<circ> fst)
        (call_create_staple_consensus single_voxel_sitk example_files ''image.nii.gz''
           [''rater_a.nii.gz'', ''rater_b.nii.gz'', ''rater_c.nii.gz''] ''base.nii.gz''
           (base_kwargs (main_kwargs Map.empty)))
       = Inr (Some [0])"
proof -
  have P: "voxels (STAPLE single_voxel_sitk 1 [unit_mask [1], unit_mask [1], unit_mask [0]])
      = [2/3]"
    unfolding example_staple_three by (simp add: unit_mask_def unit_volume_def)
  have run: "map_sum id (map_option voxels \<circ> fst)
        (call_create_staple_consensus single_voxel_sitk example_files ''image.nii.gz''
           [''rater_a.nii.gz'', ''rater_b.nii.gz'', ''rater_c.nii.gz''] ''base.nii.gz''
           (base_kwargs (main_kwargs Map.empty)))
       = Inr (Some [0])"
    unfolding base_run_unfold
    by (simp add: example_base_run example_threshold_two_thirds) (simp add: unit_mask_def unit_volume_def)
  show ?thesis
    using P run by simp
qed

lemma convert_error:
  "convert_to_binary_mask seg = Inl e \<Longrightarrow> e = ThresholdNotRepresentable"
  by (auto simp: convert_to_binary_mask_def BinaryThreshold_def split: if_splits)

lemma read_segmentation_binary:
  assumes "nonempty_volumes fs"
  shows "read_segmentation fs original_image path \<noteq> Inl NonBinaryValues"
proof (cases "ReadImage fs path")
  case (Inl e)
  then have "e = FileUnreadable"
    by (auto simp: ReadImage_def split: option.splits entry.splits)
  with Inl show ?thesis by (simp add: read_segmentation_def)
next
  case read: (Inr seg)
  then have "files fs path = Some (ImageFile seg)"
    by (auto simp: ReadImage_def split: option.splits entry.splits)
  with assms have ne: "voxels seg \<noteq> []"
    by (simp add: nonempty_volumes_def)
  show ?thesis
  proof (cases "convert_to_binary_mask seg")
    case (Inl e)
    then have "e = ThresholdNotRepresentable" by (rule convert_error)
    with Inl read show ?thesis by (simp add: read_segmentation_def)
  next
    case (Inr out)
    then have "verify_segmentation_values out = Inr ()"
      using ne by (rule verify_converted)
    with Inr read show ?thesis
      by (simp add: read_segmentation_def CopyInformation_def)
  qed
qed

lemma read_segmentations_error:
  "read_segmentations fs original_image paths = Inl e \<Longrightarrow>
   \<exists>path cause. e = ErrorReading path cause \<and> read_segmentation fs original_image path = Inl cause"
  by (induction paths) (auto split: if_splits sum.splits)

lemma check_segmentations_error:
  "check_segmentations ref_size ref_spacing i segs = Inl e \<Longrightarrow> \<forall>path cause. e \<noteq> ErrorReading path cause"
  by (induction segs arbitrary: i) (auto simp: np_allclose_def split: if_splits sum.splits)

lemma verify_spatial_consistency_error:
  "verify_spatial_consistency reference_image segs = Inl e \<Longrightarrow> \<forall>path cause. e \<noteq> ErrorReading path cause"
  using check_segmentations_error [of "GetSize reference_image" "GetSpacing reference_image" 0 segs e]
  by (auto simp: verify_spatial_consistency_def Let_def split: if_splits)

lemma add_segmentations_error:
  "add_segmentations acc segs = Inl e \<Longrightarrow> e = ShapeMismatch"
  by (induction segs arbitrary: acc) (auto simp: np_iadd_def split: if_splits sum.splits)

lemma adaptive_staple_threshold_error:
  "adaptive_staple_threshold P segs = Inl e \<Longrightarrow> e = ShapeMismatch"
  by (auto simp: adaptive_staple_threshold_def compute_optimal_thresholds_def vessel_mask_of_def
        Let_def split: sum.splits dest: add_segmentations_error)

lemma create_staple_consensus_never_non_binary:
  assumes "nonempty_volumes fs"
  shows "create_staple_consensus lib fs original_image_path segmentation_paths output_path
           confidence_threshold do_preprocessing do_adaptive_thresholding do_vessel_enhancement
         \<noteq> Inl (ErrorReading path NonBinaryValues)"
proof
  assume run: "create_staple_consensus lib fs original_image_path segmentation_paths output_path
           confidence_threshold do_preprocessing do_adaptive_thresholding do_vessel_enhancement
         = Inl (ErrorReading path NonBinaryValues)"
  then obtain original_image where orig: "ReadImage fs original_image_path = Inr original_image"
    by (auto simp: create_staple_consensus_def split: if_splits sum.splits)
  show False
  proof (cases "read_segmentations fs original_image segmentation_paths")
    case (Inl e)
    with run orig have "e = ErrorReading path NonBinaryValues"
      by (auto simp: create_staple_consensus_def split: if_splits)
    with Inl have "read_segmentation fs original_image path = Inl NonBinaryValues"
      using read_segmentations_error by blast
    then show False
      using read_segmentation_binary [OF assms] by blast
  next
    case (Inr segmentations)
    with run orig show False
      by (auto simp: create_staple_consensus_def Let_def CopyInformation_def
            split: if_splits sum.splits
            dest: verify_spatial_consistency_error adaptive_staple_threshold_error)
  qed
qed

text \<open>
  C10. Normalization either raises in the threshold filter (an integer pixel type with more
  than two distinct values) or returns a mask that holds only the values 0 and 1, and on
  which, for a volume with at least one voxel, the check \<^verbatim>\<open>verify_segmentation_values\<close>
  that the pipeline runs succeeds. Hence, on a file system whose image files hold at least
  one voxel, no run of the pipeline ends with the error for non-binary values (which the loop
  over the paths would raise again as an error of reading that path).
\<close>

theorem normalized_is_binary:
  "(convert_to_binary_mask seg = Inl ThresholdNotRepresentable
    \<or> (\<exists>out. convert_to_binary_mask seg = Inr out
           \<and> set (voxels out) \<subseteq> {0, 1}
           \<and> (voxels seg \<noteq> [] \<longrightarrow> verify_segmentation_values out = Inr ())))
   \<and> (nonempty_volumes fs \<longrightarrow>
        create_staple_consensus lib fs original_image_path segmentation_paths output_path
          confidence_threshold do_preprocessing do_adaptive_thresholding do_vessel_enhancement
        \<noteq> Inl (ErrorReading path NonBinaryValues))"
proof (rule conjI)
  show "convert_to_binary_mask seg = Inl ThresholdNotRepresentable
    \<or> (\<exists>out. convert_to_binary_mask seg = Inr out
           \<and> set (voxels out) \<subseteq> {0, 1}
           \<and> (voxels seg \<noteq> [] \<longrightarrow> verify_segmentation_values out = Inr ()))"
  proof (cases "convert_to_binary_mask seg")
    case (Inl e)
    then show ?thesis using convert_error by blast
  next
    case (Inr out)
    then show ?thesis using convert_values verify_converted by blast
  qed
next
  show "nonempty_volumes fs \<longrightarrow>
        create_staple_consensus lib fs original_image_path segmentation_paths output_path
          confidence_threshold do_preprocessing do_adaptive_thresholding do_vessel_enhancement
        \<noteq> Inl (ErrorReading path NonBinaryValues)"
    using create_staple_consensus_never_non_binary by blast
qed

lemma example_nonempty: "nonempty_volumes example_files"
  by (simp add: nonempty_volumes_def example_files_def unit_mask_def unit_volume_def)

theorem normalized_is_binary_witness:
  "voxels (unit_volume [0, 3, 7]) \<noteq> []
   \<and> (\<exists>out. convert_to_binary_mask (unit_volume [0, 3, 7]) = Inr out
          \<and> set (voxels out) \<subseteq> {0, 1}
          \<and> verify_segmentation_values out = Inr ())
   \<and> nonempty_volumes example_files
   \<and> create_staple_consensus single_voxel_sitk example_files ''image.nii.gz''
        [''rater_a.nii.gz'', ''rater_c.nii.gz''] ''consensus.nii.gz'' (1/2) True False True
      \<noteq> Inl (ErrorReading ''rater_a.nii.gz'' NonBinaryValues)"
proof -
  have a: "voxels (unit_volume [0, 3, 7]) \<noteq> []"
    by (simp add: unit_volume_def)
  have b: "convert_to_binary_mask (unit_volume [0, 3, 7]) \<noteq> Inl ThresholdNotRepresentable"
    by (simp add: convert_returns unit_volume_def is_floating_def)
  show ?thesis
    using a b example_nonempty
      normalized_is_binary [of "unit_volume [0, 3, 7]" example_files single_voxel_sitk
        "''image.nii.gz''" "[''rater_a.nii.gz'', ''rater_c.nii.gz'']" "''consensus.nii.gz''"
        "1/2" True False True "''rater_a.nii.gz''"]
    by blast
qed

section \<open>Validation inside the pipeline\<close>

text \<open>
  In \<^verbatim>\<open>create_staple_consensus\<close> every mask receives the reference's header
  (\<^verbatim>\<open>CopyInformation\<close>, line 591, which raises when the sizes differ) before the
  validator is called (line 601). The masks that reach the validator therefore have the
  reference's size and spacing, and the validation of a three-dimensional reference succeeds.
\<close>

lemma read_segmentation_header:
  assumes "read_segmentation fs original_image path = Inr seg"
  shows "GetSize seg = GetSize original_image \<and> GetSpacing seg = GetSpacing original_image"
proof -
  from assms obtain mask where "CopyInformation mask original_image = Inr seg"
    by (auto simp: read_segmentation_def split: sum.splits)
  then show ?thesis
    by (auto simp: CopyInformation_def split: if_splits)
qed

lemma read_segmentations_header:
  "read_segmentations fs original_image paths = Inr segs \<Longrightarrow>
   \<forall>seg \<in> set segs. GetSize seg = GetSize original_image
                      \<and> GetSpacing seg = GetSpacing original_image"
proof (induction paths arbitrary: segs)
  case Nil
  then show ?case by simp
next
  case (Cons path paths)
  show ?case
  proof (cases "os_path_exists fs path")
    case False
    with Cons show ?thesis by simp
  next
    case True
    show ?thesis
    proof (cases "read_segmentation fs original_image path")
      case (Inl e)
      with True Cons.prems show ?thesis by simp
    next
      case seg: (Inr seg)
      show ?thesis
      proof (cases "read_segmentations fs original_image paths")
        case (Inl e)
        with True seg Cons.prems show ?thesis by simp
      next
        case rest: (Inr rest)
        with True seg Cons.prems have segs: "segs = seg # rest" by simp
        show ?thesis
          using read_segmentation_header [OF seg] Cons.IH [OF rest] segs by simp
      qed
    qed
  qed
qed

lemma isclose_same: "isclose tolerance x x"
  by (simp add: isclose_def atol_def tolerance_def)

lemma allclose_same: "np_allclose xs xs tolerance = Inr True"
  by (simp add: np_allclose_def list_all2_same isclose_same)

lemma check_segmentations_step:
  "check_segmentations (GetSize seg) (GetSpacing seg) i (seg # segs)
     = check_segmentations (GetSize seg) (GetSpacing seg) (Suc i) segs"
  by (simp add: allclose_same)

lemma check_segmentations_same_header:
  "\<forall>seg \<in> set segs. GetSize seg = ref_size \<and> GetSpacing seg = ref_spacing \<Longrightarrow>
   check_segmentations ref_size ref_spacing i segs = Inr ()"
proof (induction segs arbitrary: i)
  case Nil
  show ?case by simp
next
  case (Cons seg segs)
  from Cons.prems have a: "ref_size = GetSize seg" and b: "ref_spacing = GetSpacing seg"
    by simp_all
  from Cons.prems have "\<forall>s \<in> set segs. GetSize s = ref_size \<and> GetSpacing s = ref_spacing"
    by simp
  then have c: "check_segmentations ref_size ref_spacing (Suc i) segs = Inr ()"
    by (rule Cons.IH)
  have "check_segmentations ref_size ref_spacing i (seg # segs)
      = check_segmentations ref_size ref_spacing (Suc i) segs"
    unfolding a b by (rule check_segmentations_step)
  with c show ?case by (simp only:)
qed

lemma pipeline_validation_succeeds:
  assumes "read_segmentations fs original_image paths = Inr segs"
    and "segs \<noteq> []"
    and "length (GetSize original_image) = 3"
  shows "verify_spatial_consistency original_image segs = Inr ()"
proof -
  have "check_segmentations (GetSize original_image) (GetSpacing original_image) 0 segs = Inr ()"
    using read_segmentations_header [OF assms(1)]
    by (rule check_segmentations_same_header)
  then show ?thesis
    using assms(2,3) by (simp add: verify_spatial_consistency_def Let_def)
qed

lemma verify_in_pipeline:
  assumes "read_segmentations fs original_image paths = Inr segs" and "segs \<noteq> []"
  shows "verify_spatial_consistency original_image segs = Inr ()
       \<or> verify_spatial_consistency original_image segs
           = Inl (Expected3D (length (GetSize original_image)))"
proof (cases "length (GetSize original_image) = 3")
  case True
  then show ?thesis
    using pipeline_validation_succeeds [OF assms] by simp
next
  case False
  then show ?thesis
    using assms(2) by (simp add: verify_spatial_consistency_def Let_def)
qed

lemma pipeline_never_spatial_mismatch:
  "create_staple_consensus lib fs original_image_path segmentation_paths output_path
     confidence_threshold do_preprocessing do_adaptive_thresholding do_vessel_enhancement
   \<noteq> Inl (DifferentDimensions i)
   \<and> create_staple_consensus lib fs original_image_path segmentation_paths output_path
     confidence_threshold do_preprocessing do_adaptive_thresholding do_vessel_enhancement
   \<noteq> Inl (DifferentSpacing i)"
proof -
  have "\<not> spatial_mismatch e"
    if run: "create_staple_consensus lib fs original_image_path segmentation_paths output_path
       confidence_threshold do_preprocessing do_adaptive_thresholding do_vessel_enhancement
       = Inl e" for e
  proof -
    from run obtain original_image where
      orig: "ReadImage fs original_image_path = Inr original_image \<or> e = ErrorReadingOriginal
             \<or> e = TooFewSegmentations"
      by (cases "ReadImage fs original_image_path")
         (auto simp: create_staple_consensus_def split: if_splits)
    show ?thesis
    proof (cases "e = ErrorReadingOriginal \<or> e = TooFewSegmentations")
      case True
      then show ?thesis by (auto simp: spatial_mismatch_def)
    next
      case other: False
      with orig have orig': "ReadImage fs original_image_path = Inr original_image" by simp
      from run other have long: "\<not> length segmentation_paths < 2"
        by (auto simp: create_staple_consensus_def split: if_splits)
      show ?thesis
      proof (cases "read_segmentations fs original_image segmentation_paths")
        case (Inl cause)
        with run orig' long have "e = cause"
          by (simp add: create_staple_consensus_def)
        with Inl show ?thesis
          using read_segmentations_error [of fs original_image segmentation_paths e]
          by (auto simp: spatial_mismatch_def)
      next
        case (Inr segmentations)
        show ?thesis
        proof (cases "segmentations = []")
          case True
          with run orig' Inr long show ?thesis
            by (simp add: create_staple_consensus_def)
        next
          case ne: False
          from verify_in_pipeline [OF Inr ne] show ?thesis
          proof
            assume ok: "verify_spatial_consistency original_image segmentations = Inr ()"
            with run orig' Inr ne long show ?thesis
              by (auto simp: create_staple_consensus_def Let_def CopyInformation_def
                    spatial_mismatch_def
                    split: if_splits sum.splits dest: adaptive_staple_threshold_error)
          next
            assume "verify_spatial_consistency original_image segmentations
                = Inl (Expected3D (length (GetSize original_image)))"
            with run orig' Inr ne long have "e = Expected3D (length (GetSize original_image))"
              by (simp add: create_staple_consensus_def)
            then show ?thesis
              by (simp add: spatial_mismatch_def)
          qed
        qed
      qed
    qed
  qed
  then show ?thesis
    by (auto simp: spatial_mismatch_def)
qed

lemma example_staple_pair:
  "STAPLE single_voxel_sitk 1 [unit_mask [1], unit_mask [1]] = unit_volume [1]"
  by (simp add: single_voxel_sitk_def fraction_of_raters_def unit_mask_def unit_volume_def)

lemma example_read_pair:
  "read_segmentations example_files (unit_volume [7]) [''rater_a.nii.gz'', ''rater_d.nii.gz'']
     = Inr [unit_mask [1], unit_mask [1]]"
  by (simp add: example_exists example_read_rater)

text \<open>
  C2 at a concrete input. The mask file \<^verbatim>\<open>rater_d.nii.gz\<close> has the reference's size and a
  spacing of 2 mm along each axis, where the reference has 1 mm: it is not congruent with the
  reference. The run that is given this file raises no error; the mask enters the consensus,
  which is written.
\<close>

theorem spacing_mismatch_accepted:
  "ReadImage example_files ''image.nii.gz'' = Inr (unit_volume [7])
   \<and> ReadImage example_files ''rater_d.nii.gz'' = Inr ((unit_mask [1])\<lparr>GetSpacing := [2, 2, 2]\<rparr>)
   \<and> GetSize ((unit_mask [1])\<lparr>GetSpacing := [2, 2, 2]\<rparr>) = GetSize (unit_volume [7])
   \<and> \<not> spatially_congruent (unit_volume [7]) ((unit_mask [1])\<lparr>GetSpacing := [2, 2, 2]\<rparr>)
   \<and> create_staple_consensus single_voxel_sitk example_files ''image.nii.gz''
        [''rater_a.nii.gz'', ''rater_d.nii.gz''] ''consensus.nii.gz'' (1/2) False False False
      = Inr (Some (unit_mask [1]),
             example_files\<lparr>files := (files example_files)
                (''consensus.nii.gz'' \<mapsto> ImageFile (unit_mask [1]))\<rparr>)"
proof -
  have rd: "ReadImage example_files ''rater_d.nii.gz''
      = Inr ((unit_mask [1])\<lparr>GetSpacing := [2, 2, 2]\<rparr>)"
    by (simp add: ReadImage_def example_files_def)
  have sz: "GetSize ((unit_mask [1])\<lparr>GetSpacing := [2, 2, 2]\<rparr>) = GetSize (unit_volume [7])"
    by (simp add: unit_mask_def unit_volume_def)
  have nc: "\<not> spatially_congruent (unit_volume [7]) ((unit_mask [1])\<lparr>GetSpacing := [2, 2, 2]\<rparr>)"
    by (simp add: spatially_congruent_def unit_mask_def unit_volume_def)
  have ver: "verify_spatial_consistency (unit_volume [7]) [unit_mask [1], unit_mask [1]] = Inr ()"
    by (simp add: verify_spatial_consistency_def Let_def unit_mask_def unit_volume_def
          np_allclose_def isclose_def atol_def tolerance_def)
  have thr: "Cast_UInt8 (Greater (unit_volume [1]) (1/2)) = unit_mask [1]"
    by (simp add: Cast_UInt8_def Greater_def trunc_def unit_mask_def unit_volume_def)
  have copy: "CopyInformation (unit_mask [1]) (unit_volume [7]) = Inr (unit_mask [1])"
    by (simp add: CopyInformation_def unit_mask_def unit_volume_def)
  have run: "create_staple_consensus single_voxel_sitk example_files ''image.nii.gz''
        [''rater_a.nii.gz'', ''rater_d.nii.gz''] ''consensus.nii.gz'' (1/2) False False False
      = Inr (Some (unit_mask [1]),
             example_files\<lparr>files := (files example_files)
                (''consensus.nii.gz'' \<mapsto> ImageFile (unit_mask [1]))\<rparr>)"
    by (simp add: create_staple_consensus_def example_read_image example_read_pair ver
          example_staple_pair thr copy example_write
          del: read_segmentations.simps)
  show ?thesis
    using example_read_image rd sz nc run by simp
qed

end
